theory Spec2Isabelle
  imports Main
begin

section \<open>JavaScript strings\<close>

text \<open>
  A JavaScript string is modelled as a \<^typ>\<open>string\<close>: a list of characters whose code is
  below 256. Indices and lengths count characters, as \<open>length\<close>, \<open>substring\<close> and the
  regular expressions of the source count code units.
\<close>

definition isSpace :: "char \<Rightarrow> bool" where
  \<comment> \<open>the regular-expression class \<open>\s\<close>: tab, line feed, vertical tab, form feed,
      carriage return, space and no-break space; \<open>trim\<close> removes the same characters\<close>
  "isSpace c = (of_char c \<in> {9, 10, 11, 12, 13, 32, 160 :: nat})"

definition isLineTerminator :: "char \<Rightarrow> bool" where
  \<comment> \<open>the characters that \<open>.\<close> of a regular expression does not match\<close>
  "isLineTerminator c = (of_char c \<in> {10, 13 :: nat})"

definition isLowerAlnum :: "char \<Rightarrow> bool" where
  \<comment> \<open>the class \<open>[a-z0-9]\<close>\<close>
  "isLowerAlnum c = (let n = (of_char c :: nat) in (97 \<le> n \<and> n \<le> 122) \<or> (48 \<le> n \<and> n \<le> 57))"

definition lowerChar :: "char \<Rightarrow> char" where
  \<comment> \<open>\<open>toLowerCase\<close> on one character: \<open>A-Z\<close> and the upper-case letters of Latin-1\<close>
  "lowerChar c =
     (let n = (of_char c :: nat)
      in if (65 \<le> n \<and> n \<le> 90) \<or> (192 \<le> n \<and> n \<le> 222 \<and> n \<noteq> 215) then char_of (n + 32) else c)"

definition toLowerCase :: "string \<Rightarrow> string" where
  "toLowerCase s = map lowerChar s"

fun startsWith :: "string \<Rightarrow> string \<Rightarrow> bool" where
  "startsWith s [] = True"
| "startsWith [] (p # ps) = False"
| "startsWith (c # cs) (p # ps) = (c = p \<and> startsWith cs ps)"

definition endsWith :: "string \<Rightarrow> string \<Rightarrow> bool" where
  "endsWith s p = startsWith (rev s) (rev p)"

fun includes_str :: "string \<Rightarrow> string \<Rightarrow> bool" where
  \<comment> \<open>\<open>s.includes(p)\<close>: \<open>p\<close> occurs in \<open>s\<close>\<close>
  "includes_str [] p = (p = [])"
| "includes_str (c # cs) p = (startsWith (c # cs) p \<or> includes_str cs p)"

definition trim :: "string \<Rightarrow> string" where
  "trim s = rev (dropWhile isSpace (rev (dropWhile isSpace s)))"

fun replaceRuns :: "(char \<Rightarrow> bool) \<Rightarrow> string \<Rightarrow> string \<Rightarrow> string" where
  \<comment> \<open>\<open>s.replace(/X+/g, r)\<close> for a character class \<open>X\<close>: every maximal run of
      characters of the class becomes one \<open>r\<close>\<close>
  "replaceRuns P r [] = []"
| "replaceRuns P r [c] = (if P c then r else [c])"
| "replaceRuns P r (c # d # cs) =
     (if P c then (if P d then replaceRuns P r (d # cs) else r @ replaceRuns P r (d # cs))
      else c # replaceRuns P r (d # cs))"

definition isHyphen :: "char \<Rightarrow> bool" where
  "isHyphen c = (c = CHR ''-'')"

definition isSlash :: "char \<Rightarrow> bool" where
  "isSlash c = (c = CHR ''/'')"

section \<open>Repository name (agents.js, manageRepository)\<close>

definition dropLeadHyphen :: "string \<Rightarrow> string" where
  \<comment> \<open>the alternative \<open>^-\<close>\<close>
  "dropLeadHyphen s = (case s of [] \<Rightarrow> [] | c # cs \<Rightarrow> if isHyphen c then cs else s)"

definition stripEdgeHyphens :: "string \<Rightarrow> string" where
  \<comment> \<open>\<open>.replace(/^-|-$/g, '')\<close>: one hyphen at the start and one at the end\<close>
  "stripEdgeHyphens s =
     (let s1 = dropLeadHyphen s
      in if s1 \<noteq> [] \<and> isHyphen (last s1) then butlast s1 else s1)"

definition slugUncapped :: "string \<Rightarrow> string" where
  \<comment> \<open>the chain of \<open>manageRepository\<close> before \<open>.substring(0, 100)\<close>\<close>
  "slugUncapped title =
     stripEdgeHyphens
       (replaceRuns isHyphen ''-''
         (replaceRuns isSpace ''-''
           (filter (\<lambda>c. isLowerAlnum c \<or> isSpace c \<or> isHyphen c) (toLowerCase title))))"

definition repoName :: "string \<Rightarrow> string" where
  "repoName title = take 100 (slugUncapped title)"

fun noAdjacent :: "(char \<Rightarrow> bool) \<Rightarrow> string \<Rightarrow> bool" where
  \<comment> \<open>no two characters of the class \<open>P\<close> in a row\<close>
  "noAdjacent P [] = True"
| "noAdjacent P [c] = True"
| "noAdjacent P (c # d # cs) = (\<not> (P c \<and> P d) \<and> noAdjacent P (d # cs))"

definition slugChar :: "char \<Rightarrow> bool" where
  \<comment> \<open>the class \<open>[a-z0-9-]\<close>\<close>
  "slugChar c = (isLowerAlnum c \<or> isHyphen c)"

section \<open>Target path of a task (developmentAgent.js, normalizeFilePath)\<close>

definition stripLeadingSlashes :: "string \<Rightarrow> string" where
  \<comment> \<open>\<open>.replace(/^\/+/, '')\<close>\<close>
  "stripLeadingSlashes s = dropWhile isSlash s"

definition collapseSlashes :: "string \<Rightarrow> string" where
  \<comment> \<open>\<open>.replace(/\/+/g, '/')\<close>\<close>
  "collapseSlashes s = replaceRuns isSlash ''/'' s"

definition stripDotSlash :: "string \<Rightarrow> string" where
  \<comment> \<open>\<open>.replace(/^\.\//, '')\<close>: one leading \<open>./\<close>\<close>
  "stripDotSlash s = (if startsWith s ''./'' then drop 2 s else s)"

definition stripTrailingSlash :: "string \<Rightarrow> string" where
  \<comment> \<open>\<open>.replace(/\/$/, '')\<close>\<close>
  "stripTrailingSlash s = (if s \<noteq> [] \<and> isSlash (last s) then butlast s else s)"

definition stripEdgeSlashes :: "string \<Rightarrow> string" where
  \<comment> \<open>\<open>.replace(/^\/+|\/+$/g, '')\<close>\<close>
  "stripEdgeSlashes s = rev (dropWhile isSlash (rev (dropWhile isSlash s)))"

definition cleanupPath :: "string \<Rightarrow> string" where
  \<comment> \<open>the first statement: leading slashes, runs of slashes, a leading \<open>./\<close>, \<open>trim\<close>\<close>
  "cleanupPath filePath = trim (stripDotSlash (collapseSlashes (stripLeadingSlashes filePath)))"

definition directoryFile :: "string \<Rightarrow> string" where
  \<comment> \<open>"Handle directory paths by creating appropriate files"\<close>
  "directoryFile p =
     (if endsWith p ''/'' \<or> p = ''root'' \<or> p = ''frontend'' \<or> p = ''backend''
      then (if p = ''root'' \<or> p = [] then ''src/main.js''
            else if p = ''frontend'' then ''frontend/src/main.js''
            else if p = ''backend'' then ''backend/src/main.js''
            else stripTrailingSlash p @ ''/index.js'')
      else p)"

definition ensureExtension :: "string \<Rightarrow> string" where
  \<comment> \<open>"Ensure the path has a proper file extension"\<close>
  "ensureExtension p = (if \<not> includes_str p ''.'' then p @ ''.js'' else p)"

definition normalizeFilePath :: "string \<Rightarrow> string \<Rightarrow> string" where
  "normalizeFilePath filePath taskTitle =
     (let normalizedPath = ensureExtension (directoryFile (cleanupPath filePath));
          final = stripEdgeSlashes (collapseSlashes normalizedPath)
      in if length final = 0
         then ''src/'' @ replaceRuns isSpace ''-'' (toLowerCase taskTitle) @ ''.js''
         else final)"


section \<open>JavaScript values\<close>

text \<open>
  The values that \<open>JSON.parse\<close> returns and \<open>JSON.stringify\<close> takes. An object is the list
  of its own properties; a property is looked up with \<open>map_of\<close>. The numbers of this program
  are counts, modelled as integers. \<open>undefined\<close> is \<open>None\<close> of a \<^typ>\<open>'a option\<close>.
\<close>

datatype json =
    JNull
  | JBool bool
  | JNum int
  | JStr string
  | JArr "json list"
  | JObj "(string \<times> json) list"

fun truthy :: "json \<Rightarrow> bool" where
  "truthy JNull = False"
| "truthy (JBool b) = b"
| "truthy (JNum n) = (n \<noteq> 0)"
| "truthy (JStr s) = (s \<noteq> [])"
| "truthy (JArr xs) = True"
| "truthy (JObj kvs) = True"

fun truthyOpt :: "json option \<Rightarrow> bool" where
  \<comment> \<open>truthiness of a value that may be \<open>undefined\<close>\<close>
  "truthyOpt None = False"
| "truthyOpt (Some v) = truthy v"

fun getProp :: "json \<Rightarrow> string \<Rightarrow> json option" where
  \<comment> \<open>\<open>v.k\<close> for a value \<open>v\<close> other than \<open>null\<close>, for the property names this program
      reads: own properties of an object, \<open>length\<close> of a string or an array, and
      \<open>undefined\<close> otherwise\<close>
  "getProp (JObj kvs) k = map_of kvs k"
| "getProp (JStr s) k = (if k = ''length'' then Some (JNum (int (length s))) else None)"
| "getProp (JArr xs) k = (if k = ''length'' then Some (JNum (int (length xs))) else None)"
| "getProp v k = None"

fun isArray :: "json option \<Rightarrow> bool" where
  "isArray (Some (JArr xs)) = True"
| "isArray v = False"

subsection \<open>JSON.stringify\<close>

fun showNat :: "nat \<Rightarrow> string" where
  "showNat n = (if n < 10 then [char_of (48 + n)] else showNat (n div 10) @ [char_of (48 + n mod 10)])"

definition hexDigit :: "nat \<Rightarrow> char" where
  "hexDigit d = (if d < 10 then char_of (48 + d) else char_of (87 + d))"

definition escapeChar :: "char \<Rightarrow> string" where
  \<comment> \<open>the escapes of \<open>JSON.stringify\<close> inside a string\<close>
  "escapeChar c =
     (let n = (of_char c :: nat)
      in if n = 34 then [CHR 0x5C, CHR 0x22]
         else if n = 92 then [CHR 0x5C, CHR 0x5C]
         else if n = 8 then [CHR 0x5C, CHR ''b'']
         else if n = 12 then [CHR 0x5C, CHR ''f'']
         else if n = 10 then [CHR 0x5C, CHR ''n'']
         else if n = 13 then [CHR 0x5C, CHR ''r'']
         else if n = 9 then [CHR 0x5C, CHR ''t'']
         else if n < 32 then [CHR 0x5C, CHR ''u'', CHR ''0'', CHR ''0'', hexDigit (n div 16), hexDigit (n mod 16)]
         else [c])"

definition quote :: "string \<Rightarrow> string" where
  "quote s = [CHR 0x22] @ concat (map escapeChar s) @ [CHR 0x22]"

fun intercalate :: "string \<Rightarrow> string list \<Rightarrow> string" where
  "intercalate sep [] = []"
| "intercalate sep [x] = x"
| "intercalate sep (x # y # ys) = x @ sep @ intercalate sep (y # ys)"

fun JSON_stringify :: "json \<Rightarrow> string" where
  "JSON_stringify JNull = ''null''"
| "JSON_stringify (JBool b) = (if b then ''true'' else ''false'')"
| "JSON_stringify (JNum n) = (if n < 0 then ''-'' @ showNat (nat (- n)) else showNat (nat n))"
| "JSON_stringify (JStr s) = quote s"
| "JSON_stringify (JArr xs) = ''['' @ intercalate '','' (map JSON_stringify xs) @ '']''"
| "JSON_stringify (JObj kvs) =
     ''{'' @ intercalate '','' (map (\<lambda>(k, v). quote k @ '':'' @ JSON_stringify v) kvs) @ ''}''"

subsection \<open>JSON.parse\<close>

text \<open>
  \<open>JSON.parse\<close> is a built-in of the language and a parameter of the model: a function from
  a text to the value it denotes, \<open>None\<close> where \<open>JSON.parse\<close> throws a \<open>SyntaxError\<close>. The
  theorems hold for every such function; the closed examples give it as the finite table of
  the texts they use.
\<close>

type_synonym parser = "string \<Rightarrow> json option"

definition parsedProp :: "parser \<Rightarrow> string \<Rightarrow> string \<Rightarrow> json option option" where
  \<comment> \<open>\<open>JSON.parse(text).k\<close> inside a \<open>try\<close>: \<open>None\<close> when the block throws (a
      \<open>SyntaxError\<close> of \<open>JSON.parse\<close>, or the \<open>TypeError\<close> of reading a property of
      \<open>null\<close>), else the value of the property\<close>
  "parsedProp parse text k =
     (case parse text of
        None \<Rightarrow> None
      | Some JNull \<Rightarrow> None
      | Some parsed \<Rightarrow> Some (getProp parsed k))"

subsection \<open>The regular expressions of the memory service\<close>

fun lazyGroup :: "char \<Rightarrow> string \<Rightarrow> string option" where
  \<comment> \<open>\<open>(.*?)c\<close> at the start of a text: the characters before the first \<open>c\<close>, when no line
      terminator comes before it\<close>
  "lazyGroup c [] = None"
| "lazyGroup c (x # xs) =
     (if x = c then Some []
      else if isLineTerminator x then None
      else map_option ((#) x) (lazyGroup c xs))"

fun lazySkip :: "char \<Rightarrow> string \<Rightarrow> string option" where
  \<comment> \<open>\<open>.*?c\<close> at the start of a text: what follows the first \<open>c\<close>, when no line terminator
      comes before it\<close>
  "lazySkip c [] = None"
| "lazySkip c (x # xs) =
     (if x = c then Some xs
      else if isLineTerminator x then None
      else lazySkip c xs)"

fun matchRemainingTasks :: "string \<Rightarrow> string option" where
  \<comment> \<open>group 1 of \<open>stepContent.match(/remainingTasks.*?\[(.*?)\]/)\<close>, \<open>None\<close> for no match: the
      leftmost position where the pattern matches; there the first \<open>[\<close> and the first \<open>]\<close>
      after it delimit the group\<close>
  "matchRemainingTasks [] = None"
| "matchRemainingTasks (c # cs) =
     (if startsWith (c # cs) ''remainingTasks''
      then (case lazySkip CHR ''['' (drop 14 (c # cs)) of
              Some r \<Rightarrow> (case lazyGroup CHR '']'' r of
                           Some g \<Rightarrow> Some g
                         | None \<Rightarrow> matchRemainingTasks cs)
            | None \<Rightarrow> matchRemainingTasks cs)
      else matchRemainingTasks cs)"

fun matchProjectSpec :: "string \<Rightarrow> string option" where
  \<comment> \<open>group 1 of \<open>stepContent.match(/projectSpec":"(.*?)"/)\<close>\<close>
  \<open>matchProjectSpec [] = None\<close>
| \<open>matchProjectSpec (c # cs) =
     (if startsWith (c # cs) ''projectSpec":"''
      then (case lazyGroup (CHR 0x22) (drop 14 (c # cs)) of
              Some g \<Rightarrow> Some g
            | None \<Rightarrow> matchProjectSpec cs)
      else matchProjectSpec cs)\<close>

fun replaceAll :: "string \<Rightarrow> string \<Rightarrow> string \<Rightarrow> string" where
  \<comment> \<open>\<open>s.replace(/pat/g, rep)\<close> for a literal, non-empty \<open>pat\<close>\<close>
  "replaceAll pat rep [] = []"
| "replaceAll pat rep (c # cs) =
     (if pat \<noteq> [] \<and> startsWith (c # cs) pat
      then rep @ replaceAll pat rep (drop (length pat) (c # cs))
      else c # replaceAll pat rep cs)"

section \<open>The memory service (memoryService.js)\<close>

text \<open>
  The service keeps two things: the local \<open>projectState\<close>, and the buffer memory of the
  langchain library. The buffer memory is the list of the messages saved so far, oldest
  first: its \<open>saveContext\<close> appends the input message and then the output message, and its
  \<open>loadMemoryVariables\<close> returns the list as \<open>past_steps\<close>. The model keeps the \<open>content\<close> of
  each message. The times that \<open>new Date().toISOString()\<close> reads during one call are one
  parameter \<open>now\<close> of the call.
\<close>

record ProjectState =
  isInitialized :: bool
  isCompleted :: bool
  remainingTasks :: "json list"
  projectSpec :: json
  lastUpdated :: "string option"

record MemoryService =
  past_steps :: "string list"
  projectState :: ProjectState

definition constructor :: MemoryService where
  "constructor =
     \<lparr> past_steps = [],
       projectState = \<lparr> isInitialized = False, isCompleted = False, remainingTasks = [],
                        projectSpec = JNull, lastUpdated = None \<rparr> \<rparr>"

definition formatted :: "json \<Rightarrow> string" where
  \<comment> \<open>\<open>typeof v === 'string' ? v : JSON.stringify(v)\<close>\<close>
  "formatted v = (case v of JStr s \<Rightarrow> s | _ \<Rightarrow> JSON_stringify v)"

definition saveContext :: "json \<Rightarrow> json \<Rightarrow> MemoryService \<Rightarrow> MemoryService" where
  "saveContext input output m = m\<lparr>past_steps := past_steps m @ [formatted input, formatted output]\<rparr>"

definition saveInitializationStatus :: "string \<Rightarrow> string \<Rightarrow> MemoryService \<Rightarrow> MemoryService" where
  "saveInitializationStatus now status m =
     saveContext (JObj [(''step'', JStr ''initialization'')])
                 (JObj [(''status'', JStr status), (''timestamp'', JStr now)])
       (m\<lparr>projectState := (projectState m)\<lparr>isInitialized := (status = ''done''), lastUpdated := Some now\<rparr>\<rparr>)"

definition saveProjectCompletion :: "string \<Rightarrow> MemoryService \<Rightarrow> MemoryService" where
  "saveProjectCompletion now m =
     saveContext (JObj [(''project'', JStr ''status'')])
                 (JObj [(''status'', JStr ''complete''), (''completedAt'', JStr now)])
       (m\<lparr>projectState := (projectState m)\<lparr>isCompleted := True, lastUpdated := Some now\<rparr>\<rparr>)"

definition markProjectCompleted :: "string \<Rightarrow> MemoryService \<Rightarrow> MemoryService" where
  "markProjectCompleted now m =
     m\<lparr>projectState := (projectState m)\<lparr>isCompleted := True, lastUpdated := Some now\<rparr>\<rparr>"

definition saveTaskProgress :: "string \<Rightarrow> json option \<Rightarrow> string \<Rightarrow> json \<Rightarrow> MemoryService \<Rightarrow> MemoryService" where
  \<comment> \<open>\<open>JSON.stringify\<close> leaves out a property whose value is \<open>undefined\<close>\<close>
  "saveTaskProgress now taskTitle status details m =
     saveContext (JObj (case taskTitle of None \<Rightarrow> [] | Some title \<Rightarrow> [(''task'', title)]))
                 (JObj [(''status'', JStr status), (''details'', details), (''timestamp'', JStr now)]) m"

definition saveRepositoryInfo :: "string \<Rightarrow> json \<Rightarrow> MemoryService \<Rightarrow> MemoryService" where
  "saveRepositoryInfo now repo m =
     saveContext (JObj [(''action'', JStr ''save_repository'')])
                 (JObj [(''repo'', repo), (''timestamp'', JStr now)]) m"



definition updateRemainingTasks :: "string \<Rightarrow> json list \<Rightarrow> MemoryService \<Rightarrow> MemoryService" where
  "updateRemainingTasks now updatedTasks m =
     (let m1 = m\<lparr>projectState := (projectState m)\<lparr>remainingTasks := updatedTasks, lastUpdated := Some now\<rparr>\<rparr>;
          m2 = saveContext (JObj [(''remainingTasks'', JStr ''update'')])
                           (JObj [(''remainingTasks'', JArr updatedTasks)]) m1
      in if length updatedTasks = 0 then markProjectCompleted now m2 else m2)"

definition isProjectInitialized :: "MemoryService \<Rightarrow> bool" where
  "isProjectInitialized m =
     (if isInitialized (projectState m) then True
      else list_ex (\<lambda>stepContent. includes_str stepContent ''initialization'' \<and> includes_str stepContent ''done'')
             (past_steps m))"

definition isProjectCompleted :: "MemoryService \<Rightarrow> bool" where
  \<open>isProjectCompleted m =
     (if isCompleted (projectState m) then True
      else list_ex (\<lambda>stepContent. includes_str stepContent ''"status":"complete"''
                                  \<or> includes_str stepContent ''"project":"status"'')
             (past_steps m))\<close>

definition parseArrayText :: "parser \<Rightarrow> string \<Rightarrow> json list option" where
  \<comment> \<open>\<open>JSON.parse\<close> of a text in brackets: an array, or a \<open>SyntaxError\<close>\<close>
  "parseArrayText parse text = (case parse text of Some (JArr xs) \<Rightarrow> Some xs | _ \<Rightarrow> None)"

fun scanRemainingTasks :: "parser \<Rightarrow> string list \<Rightarrow> json list" where
  \<comment> \<open>the loop of \<open>getRemainingTasks\<close> over \<open>memory.past_steps\<close>, with the \<open>catch\<close> around it:
      an exception of the inner \<open>catch\<close> block ends the loop and \<open>[]\<close> is returned\<close>
  "scanRemainingTasks parse [] = []"
| "scanRemainingTasks parse (stepContent # rest) =
     (if includes_str stepContent ''remainingTasks''
      then (case parsedProp parse stepContent ''remainingTasks'' of
              Some v \<Rightarrow>
                (case v of
                   Some (JArr tasks) \<Rightarrow> tasks
                 | _ \<Rightarrow> scanRemainingTasks parse rest)
            | None \<Rightarrow>
                (case matchRemainingTasks stepContent of
                   Some g \<Rightarrow>
                     (case parseArrayText parse (''['' @ g @ '']'') of
                        Some tasks \<Rightarrow> tasks
                      | None \<Rightarrow> [])
                 | None \<Rightarrow> scanRemainingTasks parse rest))
      else scanRemainingTasks parse rest)"

definition getRemainingTasks :: "parser \<Rightarrow> MemoryService \<Rightarrow> json list" where
  \<comment> \<open>the guard is \<open>remainingTasks && remainingTasks.length >= 0\<close>; an array is truthy\<close>
  "getRemainingTasks parse m =
     (if 0 \<le> length (remainingTasks (projectState m))
      then remainingTasks (projectState m)
      else scanRemainingTasks parse (past_steps m))"

definition unescapeSpec :: "string \<Rightarrow> string" where
  \<comment> \<open>\<open>.replace(/\\"/g, '"').replace(/\\n/g, '\n')\<close>\<close>
  "unescapeSpec g = replaceAll [CHR 0x5C, CHR ''n''] [CHR 0x0A] (replaceAll [CHR 0x5C, CHR 0x22] [CHR 0x22] g)"

fun scanProjectSpec :: "parser \<Rightarrow> string list \<Rightarrow> json" where
  \<comment> \<open>the loop of \<open>getProjectSpec\<close> over \<open>memory.past_steps\<close>\<close>
  "scanProjectSpec parse [] = JNull"
| "scanProjectSpec parse (stepContent # rest) =
     (if includes_str stepContent ''projectSpec''
      then (case parsedProp parse stepContent ''projectSpec'' of
              Some v \<Rightarrow>
                (case v of
                   Some spec \<Rightarrow> if truthy spec then spec else scanProjectSpec parse rest
                 | None \<Rightarrow> scanProjectSpec parse rest)
            | None \<Rightarrow>
                (case matchProjectSpec stepContent of
                   Some g \<Rightarrow> JStr (unescapeSpec g)
                 | None \<Rightarrow> scanProjectSpec parse rest))
      else scanProjectSpec parse rest)"

definition getProjectSpec :: "parser \<Rightarrow> MemoryService \<Rightarrow> json" where
  "getProjectSpec parse m =
     (if truthy (projectSpec (projectState m))
      then projectSpec (projectState m)
      else scanProjectSpec parse (past_steps m))"

fun scanSavedTasks :: "parser \<Rightarrow> string list \<Rightarrow> json list option" where
  \<comment> \<open>the loop of \<open>continueDevelopment\<close> over \<open>memory.past_steps\<close>: the first entry that
      mentions \<open>remainingTasks\<close> and whose property \<open>remainingTasks\<close> is an array that is
      not empty; an entry whose \<open>try\<close> block throws is passed over\<close>
  "scanSavedTasks parse [] = None"
| "scanSavedTasks parse (stepContent # rest) =
     (if includes_str stepContent ''remainingTasks''
      then (case parsedProp parse stepContent ''remainingTasks'' of
              Some (Some (JArr tasks)) \<Rightarrow>
                if length tasks > 0 then Some tasks else scanSavedTasks parse rest
            | _ \<Rightarrow> scanSavedTasks parse rest)
      else scanSavedTasks parse rest)"

definition continueDevelopment :: "string \<Rightarrow> parser \<Rightarrow> MemoryService \<Rightarrow> bool \<times> MemoryService" where
  \<comment> \<open>the value returned and the service after the call\<close>
  "continueDevelopment now parse m =
     (if length (remainingTasks (projectState m)) > 0
      then (True, m\<lparr>projectState := (projectState m)\<lparr>isCompleted := False, lastUpdated := Some now\<rparr>\<rparr>)
      else (case scanSavedTasks parse (past_steps m) of
              Some tasks \<Rightarrow>
                (True, m\<lparr>projectState := (projectState m)\<lparr>remainingTasks := tasks, isCompleted := False,
                                                           lastUpdated := Some now\<rparr>\<rparr>)
            | None \<Rightarrow> (False, m)))"

subsection \<open>Entries that a scan accepts\<close>

definition specEntry :: "parser \<Rightarrow> string \<Rightarrow> json \<Rightarrow> bool" where
  \<comment> \<open>a well-formed entry with the project specification \<open>v\<close>: it mentions \<open>projectSpec\<close>,
      \<open>JSON.parse\<close> accepts it, and its property \<open>projectSpec\<close> is the truthy value \<open>v\<close>\<close>
  "specEntry parse e v =
     (includes_str e ''projectSpec'' \<and> parsedProp parse e ''projectSpec'' = Some (Some v) \<and> truthy v)"

definition tasksEntry :: "parser \<Rightarrow> string \<Rightarrow> json list \<Rightarrow> bool" where
  \<comment> \<open>a well-formed entry with the task queue \<open>tasks\<close>\<close>
  "tasksEntry parse e tasks =
     (includes_str e ''remainingTasks'' \<and> parsedProp parse e ''remainingTasks'' = Some (Some (JArr tasks)))"


section \<open>Errors and the collaborators\<close>

datatype error =
    Error string \<comment> \<open>\<open>new Error(message)\<close>\<close>
  | TypeError string
  | SyntaxError string
  | RequestError nat string \<comment> \<open>an error of the GitHub client, with its \<open>status\<close> and \<open>message\<close>\<close>

fun message :: "error \<Rightarrow> string" where
  "message (Error msg) = msg"
| "message (TypeError msg) = msg"
| "message (SyntaxError msg) = msg"
| "message (RequestError st msg) = msg"

fun status :: "error \<Rightarrow> nat option" where
  "status (RequestError st msg) = Some st"
| "status e = None"

fun toStringJS :: "json \<Rightarrow> string" where
  \<comment> \<open>the conversion of a value to a string, as in a template literal\<close>
  "toStringJS JNull = ''null''"
| "toStringJS (JBool b) = (if b then ''true'' else ''false'')"
| "toStringJS (JNum n) = (if n < 0 then ''-'' @ showNat (nat (- n)) else showNat (nat n))"
| "toStringJS (JStr s) = s"
| "toStringJS (JArr xs) = intercalate '','' (map (\<lambda>x. case x of JNull \<Rightarrow> [] | _ \<Rightarrow> toStringJS x) xs)"
| "toStringJS (JObj kvs) = ''[object Object]''"

fun toStringOpt :: "json option \<Rightarrow> string" where
  "toStringOpt None = ''undefined''"
| "toStringOpt (Some v) = toStringJS v"

text \<open>
  The collaborators of a cycle are parameters: the environment, the language model and the
  GitHub client answer each call with a value or with the error they throw. The prompt of
  the language model is a template filled from the project specification and the task; the
  model keeps these two values in place of the text.
\<close>

datatype prompt =
    CodePrompt json json \<comment> \<open>the first prompt, from \<open>projectSpec\<close> and \<open>currentTask\<close>\<close>
  | RetryPrompt json json \<comment> \<open>the stronger prompt of the one retry\<close>

record Env =
  JSON_parse :: parser
  now :: string
  GITHUB_TOKEN :: "string option"
  chatLLM :: "error option" \<comment> \<open>\<open>chatLLM()\<close> throws for an unsupported provider\<close>
  invoke :: "prompt \<Rightarrow> error + string" \<comment> \<open>\<open>model.invoke\<close>: the \<open>content\<close> of the response\<close>
  getAuthenticated :: "error + string" \<comment> \<open>the \<open>login\<close> of the user\<close>
  getContent :: "string \<Rightarrow> json \<Rightarrow> string \<Rightarrow> error + string"
    \<comment> \<open>owner, repository name, path: the \<open>sha\<close> of the file\<close>
  createOrUpdateFileContents :: "string \<Rightarrow> json \<Rightarrow> string \<Rightarrow> string \<Rightarrow> string \<Rightarrow> string option \<Rightarrow> error + unit"
    \<comment> \<open>owner, repository name, path, message, content, sha\<close>

datatype event =
    Invoke prompt
  | GetAuthenticated
  | GetContent string json string
  | CreateOrUpdateFileContents string json string string string "string option"
  | SendCommitNotification string string \<comment> \<open>commit message and path\<close>
  | SendErrorNotification string \<comment> \<open>message of the commit error\<close>
  | SendTaskCompletionNotification "json option" nat \<comment> \<open>title and number of remaining tasks\<close>

section \<open>The development agent (developmentAgent.js)\<close>

definition validateState :: "(string \<times> json) list \<Rightarrow> error + unit" where
  \<comment> \<open>the required fields with their values in \<open>state\<close>; \<open>JNull\<close> for a field that is not set\<close>
  "validateState required =
     (let missing = map fst (filter (\<lambda>(field, v). \<not> truthy v) required)
      in if length missing > 0
         then Inl (Error (''Missing required fields: '' @ intercalate '', '' missing))
         else Inr ())"

subsection \<open>Cleaning the generated content\<close>

definition languages :: "string list" where
  "languages = [''html'', ''css'', ''javascript'', ''json'', ''python'', ''java'', ''cpp'', ''csharp'',
     ''php'', ''go'', ''rust'', ''swift'', ''kotlin'', ''scala'', ''r'', ''matlab'', ''julia'', ''dart'',
     ''typescript'', ''jsx'', ''tsx'']"

fun dropLanguage :: "string list \<Rightarrow> string \<Rightarrow> string" where
  \<comment> \<open>the optional group \<open>(?:html|css|...)?\<close> under the flag \<open>i\<close>: the first alternative that
      matches\<close>
  "dropLanguage [] s = s"
| "dropLanguage (l # ls) s =
     (if startsWith (toLowerCase s) l then drop (length l) s else dropLanguage ls s)"

lemma length_dropLanguage: "length (dropLanguage ls s) \<le> length s"
  by (induction ls) auto

function stripFences :: "string list \<Rightarrow> string \<Rightarrow> string" where
  \<comment> \<open>\<open>.replace(/```(?:l1|l2|...)?\s*/gi, "")\<close> for the language names \<open>l1\<close>, \<open>l2\<close>, ...\<close>
  "stripFences ls [] = []"
| "stripFences ls (c # cs) =
     (if startsWith (c # cs) ''```''
      then stripFences ls (dropWhile isSpace (dropLanguage ls (drop 3 (c # cs))))
      else c # stripFences ls cs)"
  by pat_completeness auto
termination
proof (relation "measure (\<lambda>(ls, s). length s)")
  show "wf (measure (\<lambda>(ls :: string list, s :: string). length s))" by simp
next
  fix ls :: "string list" and c :: char and cs :: string
  assume "startsWith (c # cs) ''```''"
  have "length (dropWhile isSpace (dropLanguage ls (drop 3 (c # cs))))
          \<le> length (dropLanguage ls (drop 3 (c # cs)))"
    by (rule length_dropWhile_le)
  also have "\<dots> \<le> length (drop 3 (c # cs))" by (rule length_dropLanguage)
  also have "\<dots> < length (c # cs)" by simp
  finally show "((ls, dropWhile isSpace (dropLanguage ls (drop 3 (c # cs)))), (ls, c # cs))
                  \<in> measure (\<lambda>(ls, s). length s)"
    by simp
next
  fix ls :: "string list" and c :: char and cs :: string
  show "((ls, cs), (ls, c # cs)) \<in> measure (\<lambda>(ls, s). length s)" by simp
qed

definition cleanCode :: "string \<Rightarrow> string" where
  "cleanCode content = trim (replaceAll ''```'' [] (stripFences languages content))"

definition nonCodePatterns :: "string list" where
  "nonCodePatterns = [''since the task does not require'', ''no code will be generated'',
     ''this task involves'', ''the following code'', ''here is the code'', ''explanation'',
     ''description'']"

definition hasNonCodePattern :: "string \<Rightarrow> bool" where
  \<comment> \<open>one of the patterns, all under the flag \<open>i\<close>, occurs in the content\<close>
  "hasNonCodePattern codeContent = list_ex (\<lambda>p. includes_str (toLowerCase codeContent) p) nonCodePatterns"

subsection \<open>developNextTask\<close>

record CycleState =
  st_projectSpec :: json \<comment> \<open>\<open>state.projectSpec\<close>, as \<open>getProjectSpec\<close> returned it\<close>
  st_plan :: json \<comment> \<open>\<open>state.plan\<close>\<close>
  st_repo :: json \<comment> \<open>\<open>state.repo\<close>\<close>

datatype CycleResult =
    NoMoreTasks CycleState
    \<comment> \<open>\<open>{ ...state, commits: [], status: "Project completed - no more tasks" }\<close>\<close>
  | Committed CycleState string string string "json option" nat
    \<comment> \<open>\<open>{ ...state, commits: [{ message, files: [{ path, content }] }], currentTask, remainingTasks }\<close>:
        the message, the path, the content, the title and the number of remaining tasks\<close>

definition planTasks :: "json \<Rightarrow> json list" where
  \<comment> \<open>\<open>plan.tasks\<close>, an array or absent: \<open>runDailyCycle\<close> builds the plan as
      \<open>{ tasks: remainingTasks }\<close>\<close>
  "planTasks plan = (case getProp plan ''tasks'' of Some (JArr tasks) \<Rightarrow> tasks | _ \<Rightarrow> [])"

definition checkRepository :: "json \<Rightarrow> error + json" where
  \<comment> \<open>"Validate repository"; the result is \<open>state.repo.name\<close>\<close>
  "checkRepository repo =
     (if \<not> truthy repo then Inl (Error ''No valid repository found'')
      else (case getProp repo ''name'' of
              None \<Rightarrow> Inl (Error ''No valid repository found'')
            | Some name \<Rightarrow>
                if \<not> truthy name \<or> \<not> truthyOpt (getProp repo ''url'') \<or> name = JStr ''mock-repo''
                then Inl (Error ''No valid repository found'')
                else Inr name))"

definition chooseTask :: "json list \<Rightarrow> json \<Rightarrow> json option" where
  \<comment> \<open>the head of the remaining tasks, else the head of the tasks of the plan, else none\<close>
  "chooseTask remaining plan =
     (if length remaining > 0 then Some (remaining ! 0)
      else if length (planTasks plan) > 0 then Some (planTasks plan ! 0)
      else None)"

definition promptInputs :: "json \<Rightarrow> json \<Rightarrow> error + unit" where
  \<comment> \<open>what filling the prompt reads: a property of \<open>currentTask\<close>, a property of
      \<open>projectSpec\<close>, and \<open>projectSpec.techStack.join\<close>, which only an array has\<close>
  "promptInputs spec currentTask =
     (if currentTask = JNull then Inl (TypeError ''Cannot read properties of null'')
      else if spec = JNull then Inl (TypeError ''Cannot read properties of null'')
      else if \<not> isArray (getProp spec ''techStack'')
      then Inl (TypeError ''projectSpec.techStack.join is not a function'')
      else Inr ())"

definition generateCode :: "Env \<Rightarrow> json \<Rightarrow> json \<Rightarrow> (error + string) \<times> event list" where
  "generateCode env spec currentTask =
     (case promptInputs spec currentTask of
        Inl e \<Rightarrow> (Inl e, [])
      | Inr u \<Rightarrow>
          (case invoke env (CodePrompt spec currentTask) of
             Inl e \<Rightarrow> (Inl e, [Invoke (CodePrompt spec currentTask)])
           | Inr content \<Rightarrow>
               (let codeContent = cleanCode content
                in if codeContent = [] \<or> length codeContent < 10
                   then (Inl (Error ''Generated content is too short - likely not actual code''),
                         [Invoke (CodePrompt spec currentTask)])
                   else if hasNonCodePattern codeContent \<and> length codeContent < 200
                   then (case invoke env (RetryPrompt spec currentTask) of
                           Inl e \<Rightarrow>
                             (Inl e, [Invoke (CodePrompt spec currentTask),
                                      Invoke (RetryPrompt spec currentTask)])
                         | Inr retry \<Rightarrow>
                             (Inr (cleanCode retry),
                              [Invoke (CodePrompt spec currentTask),
                               Invoke (RetryPrompt spec currentTask)]))
                   else (Inr codeContent, [Invoke (CodePrompt spec currentTask)]))))"

definition targetPath :: "json \<Rightarrow> error + string" where
  \<comment> \<open>\<open>normalizeFilePath(currentTask.filePath, currentTask.title)\<close>; only a string has
      \<open>replace\<close>\<close>
  "targetPath currentTask =
     (case getProp currentTask ''filePath'' of
        Some (JStr filePath) \<Rightarrow> Inr (normalizeFilePath filePath (toStringOpt (getProp currentTask ''title'')))
      | _ \<Rightarrow> Inl (TypeError ''filePath.replace is not a function''))"

definition commitFile :: "Env \<Rightarrow> json \<Rightarrow> string \<Rightarrow> string \<Rightarrow> string \<Rightarrow> (error + unit) \<times> event list" where
  \<comment> \<open>the GitHub operations: the token, the user, the \<open>sha\<close> of an existing file, the commit
      and the notification of its outcome\<close>
  "commitFile env repo fullPath commitMessage codeContent =
     (if GITHUB_TOKEN env = None \<or> GITHUB_TOKEN env = Some []
      then (Inl (Error ''GITHUB_TOKEN not found in environment variables''), [])
      else (case getAuthenticated env of
              Inl e \<Rightarrow> (Inl e, [GetAuthenticated])
            | Inr owner \<Rightarrow>
                (case (case getContent env owner repo fullPath of
                         Inr sha \<Rightarrow> Inr (Some sha)
                       | Inl e \<Rightarrow> if status e = Some 404 then Inr None else Inl e) of
                   Inl e \<Rightarrow> (Inl e, [GetAuthenticated, GetContent owner repo fullPath])
                 | Inr sha \<Rightarrow>
                     (case createOrUpdateFileContents env owner repo fullPath commitMessage codeContent sha of
                        Inr u \<Rightarrow>
                          (Inr (),
                           [GetAuthenticated, GetContent owner repo fullPath,
                            CreateOrUpdateFileContents owner repo fullPath commitMessage codeContent sha,
                            SendCommitNotification commitMessage fullPath])
                      | Inl commitError \<Rightarrow>
                          (Inl (Error (''GitHub commit failed: '' @ message commitError)),
                           [GetAuthenticated, GetContent owner repo fullPath,
                            CreateOrUpdateFileContents owner repo fullPath commitMessage codeContent sha,
                            SendErrorNotification (message commitError)])))))"

definition titleOf :: "json \<Rightarrow> json option" where
  "titleOf task = getProp task ''title''"

definition primitiveTitle :: "json \<Rightarrow> bool" where
  \<comment> \<open>the title is a string, a number, a boolean, \<open>null\<close> or \<open>undefined\<close>: \<open>!==\<close> on such
      titles is inequality of the values\<close>
  "primitiveTitle task =
     (case titleOf task of Some (JArr xs) \<Rightarrow> False | Some (JObj kvs) \<Rightarrow> False | _ \<Rightarrow> True)"

definition removeCompleted :: "json list \<Rightarrow> json \<Rightarrow> error + json list" where
  \<comment> \<open>\<open>remainingTasks.filter(task => task.title !== currentTask.title)\<close>; reading the title
      of a task that is \<open>null\<close> throws\<close>
  "removeCompleted remaining currentTask =
     (if list_ex (\<lambda>task. task = JNull) remaining
      then Inl (TypeError ''Cannot read properties of null'')
      else Inr (filter (\<lambda>task. titleOf task \<noteq> titleOf currentTask) remaining))"

definition recordCompletion ::
  "Env \<Rightarrow> CycleState \<Rightarrow> MemoryService \<Rightarrow> json list \<Rightarrow> json \<Rightarrow> string \<Rightarrow> string \<Rightarrow> string \<Rightarrow>
     (error + CycleResult) \<times> MemoryService \<times> event list" where
  \<comment> \<open>after the commit: "Update memory with task completion", "Remove completed task from
      remaining tasks", "Check if all tasks are completed", the notification and the result\<close>
  "recordCompletion env state m remaining currentTask fullPath commitMessage codeContent =
     (let m1 = saveTaskProgress (now env) (titleOf currentTask) ''completed''
                 (JObj [(''filePath'', JStr fullPath), (''commitMessage'', JStr commitMessage),
                        (''timestamp'', JStr (now env))]) m
      in case removeCompleted remaining currentTask of
           Inl e \<Rightarrow> (Inl e, m1, [])
         | Inr updatedRemainingTasks \<Rightarrow>
             (let m2 = updateRemainingTasks (now env) updatedRemainingTasks m1;
                  m3 = (if length updatedRemainingTasks = 0 then markProjectCompleted (now env) m2 else m2)
              in (Inr (Committed state commitMessage fullPath codeContent (titleOf currentTask)
                         (length updatedRemainingTasks)),
                  m3,
                  [SendTaskCompletionNotification (titleOf currentTask) (length updatedRemainingTasks)])))"

definition commitTask ::
  "Env \<Rightarrow> CycleState \<Rightarrow> MemoryService \<Rightarrow> json \<Rightarrow> json list \<Rightarrow> json \<Rightarrow> string \<Rightarrow>
     (error + CycleResult) \<times> MemoryService \<times> event list" where
  \<comment> \<open>from "Validate and normalize file path" to the commit, then the completion\<close>
  "commitTask env state m nameOfRepo remaining currentTask codeContent =
     (case targetPath currentTask of
        Inl e \<Rightarrow> (Inl e, m, [])
      | Inr fullPath \<Rightarrow>
          (let commitMessage = ''feat: implement '' @ toStringOpt (titleOf currentTask)
           in case commitFile env nameOfRepo fullPath commitMessage codeContent of
                (Inl e, evs2) \<Rightarrow> (Inl e, m, evs2)
              | (Inr u, evs2) \<Rightarrow>
                  (case recordCompletion env state m remaining currentTask fullPath commitMessage codeContent of
                     (res, m', evs3) \<Rightarrow> (res, m', evs2 @ evs3))))"

definition developTask ::
  "Env \<Rightarrow> CycleState \<Rightarrow> MemoryService \<Rightarrow> json \<Rightarrow> json \<Rightarrow> json list \<Rightarrow> json \<Rightarrow>
     (error + CycleResult) \<times> MemoryService \<times> event list" where
  \<comment> \<open>the selected task: the content is generated, then committed\<close>
  "developTask env state m spec nameOfRepo remaining currentTask =
     (case generateCode env spec currentTask of
        (Inl e, evs1) \<Rightarrow> (Inl e, m, evs1)
      | (Inr codeContent, evs1) \<Rightarrow>
          (case commitTask env state m nameOfRepo remaining currentTask codeContent of
             (res, m', evs2) \<Rightarrow> (res, m', evs1 @ evs2)))"

definition developBody :: "Env \<Rightarrow> CycleState \<Rightarrow> MemoryService \<Rightarrow> (error + CycleResult) \<times> MemoryService \<times> event list" where
  \<comment> \<open>the \<open>try\<close> block of \<open>developNextTask\<close>: the result or the error thrown, the memory
      service and the calls made up to there\<close>
  "developBody env state m =
     (case validateState [(''projectSpec'', st_projectSpec state), (''plan'', st_plan state),
                          (''repo'', st_repo state)] of
        Inl e \<Rightarrow> (Inl e, m, [])
      | Inr u \<Rightarrow>
     (case chatLLM env of
        Some e \<Rightarrow> (Inl e, m, [])
      | None \<Rightarrow>
     (case JSON_parse env (toStringJS (st_projectSpec state)) of
        None \<Rightarrow> (Inl (Error ''Invalid projectSpec or plan JSON''), m, [])
      | Some spec \<Rightarrow>
     (case checkRepository (st_repo state) of
        Inl e \<Rightarrow> (Inl e, m, [])
      | Inr nameOfRepo \<Rightarrow>
     (let remaining = getRemainingTasks (JSON_parse env) m
      in case chooseTask remaining (st_plan state) of
           None \<Rightarrow> (Inr (NoMoreTasks state), saveProjectCompletion (now env) m, [])
         | Some currentTask \<Rightarrow> developTask env state m spec nameOfRepo remaining currentTask)))))"

definition failureEntries :: "string \<Rightarrow> error \<Rightarrow> string list" where
  \<comment> \<open>the two messages that \<open>saveTaskProgress("ERROR", "failed", { error, timestamp })\<close>
      saves\<close>
  "failureEntries t e =
     [formatted (JObj [(''task'', JStr ''ERROR'')]),
      formatted (JObj [(''status'', JStr ''failed''),
                       (''details'', JObj [(''error'', JStr (message e)), (''timestamp'', JStr t)]),
                       (''timestamp'', JStr t)])]"

definition developNextTask :: "Env \<Rightarrow> CycleState \<Rightarrow> MemoryService \<Rightarrow> (error + CycleResult) \<times> MemoryService \<times> event list" where
  \<comment> \<open>the \<open>catch\<close> block saves the failure and throws the error again\<close>
  "developNextTask env state m =
     (case developBody env state m of
        (Inr result, m', evs) \<Rightarrow> (Inr result, m', evs)
      | (Inl e, m', evs) \<Rightarrow>
          (Inl e,
           saveTaskProgress (now env) (Some (JStr ''ERROR'')) ''failed''
             (JObj [(''error'', JStr (message e)), (''timestamp'', JStr (now env))]) m',
           evs))"

definition taskCompletionNotifications :: "event list \<Rightarrow> event list" where
  \<comment> \<open>the calls of \<open>sendTaskCompletionNotification\<close> among the calls of a cycle\<close>
  "taskCompletionNotifications evs =
     filter (\<lambda>ev. case ev of SendTaskCompletionNotification title n \<Rightarrow> True | _ \<Rightarrow> False) evs"

section \<open>The agents of the setup (agents.js)\<close>

record RepoRef =
  repo_name :: string
  repo_url :: string

record AgentState =
  as_projectName :: "string option"
  as_description :: "string option"
  as_complexity :: string
  as_techConstraints :: "string list"
  as_projectSpec :: "string option"
  as_plan :: "string option"
  as_repo :: "RepoRef option"

record GitHubRepo =
  gh_name :: string
  gh_html_url :: string

datatype setupPrompt =
    IdeaPrompt AgentState
  | PlanPrompt json
  | ReadmePrompt json GitHubRepo nat \<comment> \<open>the specification, the repository and the attempt\<close>

record SetupEnv =
  su_parse :: parser
  su_now :: string
  su_token :: "string option"
  su_chatLLM :: "error option"
  su_invoke :: "setupPrompt \<Rightarrow> error + string"
  su_getAuthenticated :: "error + string"
  su_repos_get :: "string \<Rightarrow> string \<Rightarrow> error + GitHubRepo" \<comment> \<open>owner and name\<close>
  su_createForAuthenticatedUser :: "string \<Rightarrow> string \<Rightarrow> error + GitHubRepo" \<comment> \<open>name and description\<close>
  su_getContent :: "string \<Rightarrow> string \<Rightarrow> string \<Rightarrow> error + string"
  su_createOrUpdateFileContents :: "string \<Rightarrow> string \<Rightarrow> string \<Rightarrow> string \<Rightarrow> string \<Rightarrow> string option \<Rightarrow> error + unit"

definition optStr :: "string option \<Rightarrow> json" where
  \<comment> \<open>a field that is a string or not set\<close>
  "optStr v = (case v of None \<Rightarrow> JNull | Some s \<Rightarrow> JStr s)"

definition strOr :: "string option \<Rightarrow> string \<Rightarrow> string" where
  \<comment> \<open>\<open>v || fallback\<close> for a string \<open>v\<close> that may be not set\<close>
  "strOr v fallback = (case v of None \<Rightarrow> fallback | Some s \<Rightarrow> if s = [] then fallback else s)"

fun stripJsonFences :: "string \<Rightarrow> string" where
  \<comment> \<open>\<open>.replace(/```json|```/g, "")\<close>\<close>
  "stripJsonFences [] = []"
| "stripJsonFences (c # cs) =
     (if startsWith (c # cs) ''```json'' then stripJsonFences (drop 7 (c # cs))
      else if startsWith (c # cs) ''```'' then stripJsonFences (drop 3 (c # cs))
      else c # stripJsonFences cs)"

definition fallbackSpec :: "AgentState \<Rightarrow> string" where
  \<comment> \<open>"Fallback response - maintains exact same output format"\<close>
  "fallbackSpec state =
     JSON_stringify (JObj
       [(''title'', JStr (strOr (as_projectName state) ''Random Project'')),
        (''type'', JStr ''Web App''),
        (''complexity'', JStr (as_complexity state)),
        (''techStack'', JArr (map JStr (as_techConstraints state))),
        (''features'', JArr [JStr ''Feature 1'', JStr ''Feature 2'']),
        (''timeline'', JStr ''2 weeks''),
        (''description'',
           JStr (strOr (as_description state)
                   (if truthy (optStr (as_projectName state))
                    then ''Fallback project for '' @ strOr (as_projectName state) [] @ '' due to error''
                    else ''Fallback project due to error''))),
        (''targetAudience'', JStr ''Developers'')])"

definition generateIdeaBody :: "SetupEnv \<Rightarrow> AgentState \<Rightarrow> error + AgentState" where
  \<comment> \<open>the \<open>try\<close> block of \<open>generateIdea\<close>\<close>
  "generateIdeaBody env state =
     (case validateState [(''complexity'', JStr (as_complexity state))] of
        Inl e \<Rightarrow> Inl e
      | Inr u \<Rightarrow>
     (case su_chatLLM env of
        Some e \<Rightarrow> Inl e
      | None \<Rightarrow>
     (case su_invoke env (IdeaPrompt state) of
        Inl e \<Rightarrow> Inl e
      | Inr content \<Rightarrow>
          (let cleaned = trim (stripJsonFences content)
           in case su_parse env cleaned of
                None \<Rightarrow> Inl (Error ''Invalid JSON response from model'')
              | Some v \<Rightarrow> Inr (state\<lparr>as_projectSpec := Some cleaned\<rparr>)))))"

definition generateIdea :: "SetupEnv \<Rightarrow> AgentState \<Rightarrow> error + AgentState" where
  \<comment> \<open>the \<open>catch\<close> block returns the fallback specification\<close>
  "generateIdea env state =
     (case generateIdeaBody env state of
        Inr result \<Rightarrow> Inr result
      | Inl e \<Rightarrow> Inr (state\<lparr>as_projectSpec := Some (fallbackSpec state)\<rparr>))"

definition fallbackPlan :: string where
  "fallbackPlan =
     JSON_stringify (JObj [(''tasks'', JArr []), (''timeline'', JStr ''1 week''), (''dependencies'', JArr []),
                           (''milestones'', JArr []), (''riskFactors'', JArr [])])"

definition planProjectBody :: "SetupEnv \<Rightarrow> AgentState \<Rightarrow> error + AgentState" where
  \<comment> \<open>the \<open>try\<close> block of \<open>planProject\<close>\<close>
  "planProjectBody env state =
     (case validateState [(''projectSpec'', optStr (as_projectSpec state))] of
        Inl e \<Rightarrow> Inl e
      | Inr u \<Rightarrow>
     (case su_chatLLM env of
        Some e \<Rightarrow> Inl e
      | None \<Rightarrow>
     (case su_parse env (strOr (as_projectSpec state) []) of
        None \<Rightarrow> Inl (Error ''Invalid projectSpec JSON'')
      | Some spec \<Rightarrow>
     (case su_invoke env (PlanPrompt spec) of
        Inl e \<Rightarrow> Inl e
      | Inr content \<Rightarrow>
          (let cleaned = trim (stripJsonFences content)
           in if isArray (case parsedProp (su_parse env) cleaned ''tasks'' of None \<Rightarrow> None | Some v \<Rightarrow> v)
              then Inr (state\<lparr>as_plan := Some cleaned\<rparr>)
              else Inl (Error ''Invalid JSON response from model''))))))"

definition planProject :: "SetupEnv \<Rightarrow> AgentState \<Rightarrow> error + AgentState" where
  \<comment> \<open>the \<open>catch\<close> block returns the plan without tasks\<close>
  "planProject env state =
     (case planProjectBody env state of
        Inr result \<Rightarrow> Inr result
      | Inl e \<Rightarrow> Inr (state\<lparr>as_plan := Some fallbackPlan\<rparr>))"

subsection \<open>manageRepository\<close>

definition mockRepo :: RepoRef where
  "mockRepo = \<lparr> repo_name = ''mock-repo'', repo_url = ''http://mock-repo.com'' \<rparr>"

definition lowerOr :: "json option \<Rightarrow> string \<Rightarrow> error + string" where
  \<comment> \<open>\<open>v?.toLowerCase() || fallback\<close>: only a string has \<open>toLowerCase\<close>\<close>
  "lowerOr v fallback =
     (case v of
        None \<Rightarrow> Inr fallback
      | Some JNull \<Rightarrow> Inr fallback
      | Some (JStr s) \<Rightarrow> Inr (if s = [] then fallback else toLowerCase s)
      | Some other \<Rightarrow> Inl (TypeError ''toLowerCase is not a function''))"

definition joinJS :: "string \<Rightarrow> json list \<Rightarrow> string" where
  \<comment> \<open>\<open>xs.join(sep)\<close>\<close>
  "joinJS sep xs = intercalate sep (map (\<lambda>x. case x of JNull \<Rightarrow> [] | _ \<Rightarrow> toStringJS x) xs)"

definition builtWith :: "json option \<Rightarrow> error + string" where
  \<comment> \<open>the sentence for \<open>projectSpec.techStack\<close>, when it is truthy and its \<open>length\<close> is above
      0: only an array has \<open>join\<close>. The \<open>length\<close> of an object is compared when it is a number.\<close>
  "builtWith techStack =
     (case techStack of
        Some (JArr xs) \<Rightarrow> Inr (if length xs > 0 then '' Built with '' @ joinJS '', '' xs @ ''.'' else [])
      | Some (JStr s) \<Rightarrow> if length s > 0 then Inl (TypeError ''techStack.join is not a function'') else Inr []
      | Some (JObj kvs) \<Rightarrow>
          (case map_of kvs ''length'' of
             Some (JNum n) \<Rightarrow> if n > 0 then Inl (TypeError ''techStack.join is not a function'') else Inr []
           | _ \<Rightarrow> Inr [])
      | _ \<Rightarrow> Inr [])"

definition repoDescription :: "json \<Rightarrow> string \<Rightarrow> error + string" where
  \<comment> \<open>"Enhanced repository description", cut to 350 characters\<close>
  "repoDescription spec title =
     (case lowerOr (getProp spec ''complexity'') ''intermediate'' of
        Inl e \<Rightarrow> Inl e
      | Inr c \<Rightarrow>
     (case lowerOr (getProp spec ''type'') ''software'' of
        Inl e \<Rightarrow> Inl e
      | Inr ty \<Rightarrow>
     (case builtWith (getProp spec ''techStack'') of
        Inl e \<Rightarrow> Inl e
      | Inr built \<Rightarrow>
          (let d0 = ''A '' @ c @ '' '' @ ty @ '' project: '' @ title @ ''.'';
               d1 = (if truthyOpt (getProp spec ''description'')
                     then d0 @ '' '' @ toStringOpt (getProp spec ''description'') else d0);
               d2 = d1 @ built
           in Inr (if length d2 > 350 then take 347 d2 @ ''...'' else d2)))))"

definition readmeAttempt :: "SetupEnv \<Rightarrow> json \<Rightarrow> GitHubRepo \<Rightarrow> string \<Rightarrow> nat \<Rightarrow> error + string" where
  \<comment> \<open>one attempt of \<open>generateAIReadme\<close>\<close>
  "readmeAttempt env spec repo title attempt =
     (case su_chatLLM env of
        Some e \<Rightarrow> Inl e
      | None \<Rightarrow>
     (case su_invoke env (ReadmePrompt spec repo attempt) of
        Inl e \<Rightarrow> Inl e
      | Inr content \<Rightarrow>
          (let readmeContent = trim (replaceAll ''```'' [] (stripFences [''markdown'', ''md''] content))
           in if readmeContent = [] \<or> length readmeContent < 100
              then Inl (Error ''Generated README content is too short'')
              else Inr (if startsWith readmeContent ''#'' then readmeContent
                        else ''# '' @ title @ [CHR 0x0A, CHR 0x0A] @ readmeContent))))"

fun readmeLoop :: "SetupEnv \<Rightarrow> json \<Rightarrow> GitHubRepo \<Rightarrow> string \<Rightarrow> nat \<Rightarrow> nat \<Rightarrow> string \<Rightarrow> error + string" where
  \<comment> \<open>the loop of \<open>generateAIReadme\<close>: the next attempt, the attempts left and the message of
      the last error\<close>
  "readmeLoop env spec repo title attempt 0 lastMessage =
     Inl (Error (''Failed to generate README after 3 attempts: '' @ lastMessage))"
| "readmeLoop env spec repo title attempt (Suc left) lastMessage =
     (case readmeAttempt env spec repo title attempt of
        Inr readme \<Rightarrow> Inr readme
      | Inl e \<Rightarrow> readmeLoop env spec repo title (Suc attempt) left (message e))"

definition generateAIReadme :: "SetupEnv \<Rightarrow> json \<Rightarrow> GitHubRepo \<Rightarrow> string \<Rightarrow> error + string" where
  "generateAIReadme env spec repo title = readmeLoop env spec repo title 1 3 []"

definition ensureRepository :: "SetupEnv \<Rightarrow> string \<Rightarrow> string \<Rightarrow> string \<Rightarrow> error + GitHubRepo" where
  \<comment> \<open>"Check if repository already exists", else "Create new repository"; another error
      than status 404 is thrown again\<close>
  "ensureRepository env owner name descr =
     (case su_repos_get env owner name of
        Inr existingRepo \<Rightarrow> Inr existingRepo
      | Inl e \<Rightarrow> if status e = Some 404 then su_createForAuthenticatedUser env name descr else Inl e)"

definition manageRepositoryBody :: "SetupEnv \<Rightarrow> AgentState \<Rightarrow> error + AgentState" where
  \<comment> \<open>the \<open>try\<close> block of \<open>manageRepository\<close>\<close>
  "manageRepositoryBody env state =
     (case validateState [(''projectSpec'', optStr (as_projectSpec state))] of
        Inl e \<Rightarrow> Inl e
      | Inr u \<Rightarrow>
     (if su_token env = None \<or> su_token env = Some [] then Inr (state\<lparr>as_repo := Some mockRepo\<rparr>)
      else
     (case su_parse env (strOr (as_projectSpec state) []) of
        None \<Rightarrow> Inr (state\<lparr>as_repo := Some mockRepo\<rparr>)
      | Some JNull \<Rightarrow> Inl (TypeError ''Cannot read properties of null'')
      | Some spec \<Rightarrow>
     (case getProp spec ''title'' of
        Some (JStr title) \<Rightarrow>
          (let name = repoName title
           in case repoDescription spec title of
                Inl e \<Rightarrow> Inl e
              | Inr descr \<Rightarrow>
          (case su_getAuthenticated env of
             Inl e \<Rightarrow> Inl e
           | Inr owner \<Rightarrow>
          (case ensureRepository env owner name descr of
             Inl e \<Rightarrow> Inl e
           | Inr repo \<Rightarrow>
          (case generateAIReadme env spec repo title of
             Inl e \<Rightarrow> Inl e
           | Inr readmeContent \<Rightarrow>
          (case (case su_getContent env owner name ''README.md'' of
                   Inr sha \<Rightarrow> Inr (Some sha)
                 | Inl e \<Rightarrow> if status e \<noteq> Some 404 then Inl e else Inr None) of
             Inl e \<Rightarrow> Inl e
           | Inr readmeSha \<Rightarrow>
          (case su_createOrUpdateFileContents env owner name ''README.md''
                  (if readmeSha \<noteq> None \<and> readmeSha \<noteq> Some [] then ''Update README with project details''
                   else ''Initial commit: Add comprehensive README'')
                  readmeContent readmeSha of
             Inl e \<Rightarrow> Inl e
           | Inr u \<Rightarrow>
               Inr (state\<lparr>as_repo := Some \<lparr> repo_name = gh_name repo, repo_url = gh_html_url repo \<rparr>\<rparr>)))))))
      | _ \<Rightarrow> Inl (TypeError ''projectSpec.title.toLowerCase is not a function'')))))"

definition manageRepository :: "SetupEnv \<Rightarrow> AgentState \<Rightarrow> error + AgentState" where
  \<comment> \<open>the \<open>catch\<close> block returns the placeholder repository\<close>
  "manageRepository env state =
     (case manageRepositoryBody env state of
        Inr result \<Rightarrow> Inr result
      | Inl e \<Rightarrow> Inr (state\<lparr>as_repo := Some mockRepo\<rparr>))"

definition repoJson :: "RepoRef \<Rightarrow> json" where
  \<comment> \<open>the object \<open>{ name, url }\<close>\<close>
  "repoJson repo = JObj [(''name'', JStr (repo_name repo)), (''url'', JStr (repo_url repo))]"

section \<open>A project for the scenarios\<close>

text \<open>
  A project with three queued tasks, two of them with the same title, a repository and a
  language model that answers with a line of code. The outcome of the commit is the
  parameter of the environment: the scenario of a conflict gives it as an error.
\<close>

definition demoSpecText :: string where
  \<open>demoSpecText = ''{"title":"Demo","type":"CLI Tool","complexity":"Beginner","techStack":["Node.js"]}''\<close>

definition demoSpec :: json where
  "demoSpec = JObj [(''title'', JStr ''Demo''), (''type'', JStr ''CLI Tool''),
                    (''complexity'', JStr ''Beginner''), (''techStack'', JArr [JStr ''Node.js''])]"

definition demoTasks :: "json list" where
  "demoTasks =
     [JObj [(''title'', JStr ''Set up''), (''description'', JStr ''Entry point''), (''filePath'', JStr ''src/index'')],
      JObj [(''title'', JStr ''Add tests''), (''description'', JStr ''Unit tests''), (''filePath'', JStr ''/tests//'')],
      JObj [(''title'', JStr ''Set up''), (''description'', JStr ''Configuration''), (''filePath'', JStr ''config.json'')]]"

definition demoMemory :: MemoryService where
  "demoMemory =
     constructor\<lparr>projectState :=
       (projectState constructor)\<lparr>isInitialized := True, remainingTasks := demoTasks,
                                   projectSpec := JStr demoSpecText\<rparr>\<rparr>"

definition demoState :: CycleState where
  "demoState =
     \<lparr> st_projectSpec = JStr demoSpecText,
       st_plan = JObj [(''tasks'', JArr demoTasks)],
       st_repo = JObj [(''name'', JStr ''demo''), (''url'', JStr ''https://github.com/octo/demo'')] \<rparr>"

definition demoEnv :: "error + unit \<Rightarrow> Env" where
  "demoEnv commitOutcome =
     \<lparr> JSON_parse = map_of [(demoSpecText, demoSpec)],
       now = ''2024-01-01T00:00:00.000Z'',
       GITHUB_TOKEN = Some ''token'',
       chatLLM = None,
       invoke = (\<lambda>p. Inr ''module.exports = 42;''),
       getAuthenticated = Inr ''octo'',
       getContent = (\<lambda>owner repo path. Inl (RequestError 404 ''Not Found'')),
       createOrUpdateFileContents = (\<lambda>owner repo path msg content sha. commitOutcome) \<rparr>"

definition failingHost :: SetupEnv where
  \<comment> \<open>a host that answers the lookup of the repository with status 500; the language model
      answers with a specification\<close>
  "failingHost =
     \<lparr> su_parse = map_of [(demoSpecText, demoSpec)],
       su_now = ''2024-01-01T00:00:00.000Z'',
       su_token = Some ''token'',
       su_chatLLM = None,
       su_invoke = (\<lambda>p. Inr demoSpecText),
       su_getAuthenticated = Inr ''octo'',
       su_repos_get = (\<lambda>owner name. Inl (RequestError 500 ''Internal Server Error'')),
       su_createForAuthenticatedUser = (\<lambda>name descr. Inl (RequestError 500 ''Internal Server Error'')),
       su_getContent = (\<lambda>owner name path. Inl (RequestError 404 ''Not Found'')),
       su_createOrUpdateFileContents = (\<lambda>owner name path msg content sha. Inr ()) \<rparr>"

definition plannedState :: AgentState where
  \<comment> \<open>the state that reaches \<open>manageRepository\<close>: the specification of the demo project\<close>
  "plannedState =
     \<lparr> as_projectName = None, as_description = None, as_complexity = ''beginner'',
       as_techConstraints = [''Node.js''], as_projectSpec = Some demoSpecText,
       as_plan = Some fallbackPlan, as_repo = None \<rparr>"

section \<open>The schedule (config/commitSchedule.js)\<close>

record Schedule =
  mode :: string
  interval :: string
  cronExpression :: string
  description :: string

definition development :: Schedule where
  "development = \<lparr> mode = ''development'', interval = ''1m'', cronExpression = ''*/1 * * * *'',
                     description = ''Commit every 1 minutes for development'' \<rparr>"

definition production :: "nat \<Rightarrow> nat \<Rightarrow> Schedule" where
  \<comment> \<open>\<open>generateRandomCronBetween(9, 21)\<close> draws the minute and the hour when the module is
      loaded; they are parameters\<close>
  "production randomMinute randomHour =
     \<lparr> mode = ''production'', interval = ''daily'',
       cronExpression = showNat randomMinute @ '' '' @ showNat randomHour @ '' * * *'',
       description = ''Commit daily at random time between 9:00 AM and 9:00 PM'' \<rparr>"

definition objectPrototypeKeys :: "string list" where
  \<comment> \<open>the names that every object inherits: \<open>commitScheduleConfig[name]\<close> is then a truthy
      value without a \<open>cronExpression\<close>\<close>
  "objectPrototypeKeys = [''constructor'', ''toString'', ''toLocaleString'', ''valueOf'', ''hasOwnProperty'',
     ''isPrototypeOf'', ''propertyIsEnumerable'', ''__proto__'', ''__defineGetter__'', ''__defineSetter__'',
     ''__lookupGetter__'', ''__lookupSetter__'']"

definition getCurrentSchedule :: "string option \<Rightarrow> nat \<Rightarrow> nat \<Rightarrow> Schedule option" where
  \<comment> \<open>the argument is \<open>process.env.COMMIT_MODE\<close>; \<open>None\<close> is a value that is not a schedule\<close>
  "getCurrentSchedule COMMIT_MODE randomMinute randomHour =
     (let m0 = (case COMMIT_MODE of None \<Rightarrow> ''development'' | Some v \<Rightarrow> if v = [] then ''development'' else v);
          normalizedMode = (if m0 = ''test'' then ''development'' else m0)
      in if normalizedMode = ''development'' then Some development
         else if normalizedMode = ''production'' then Some (production randomMinute randomHour)
         else if normalizedMode \<in> set objectPrototypeKeys then None
         else Some development)"

definition validateSchedule :: "Schedule option \<Rightarrow> error + unit" where
  "validateSchedule schedule =
     (case schedule of
        None \<Rightarrow> Inl (Error ''Invalid schedule: missing cronExpression'')
      | Some s \<Rightarrow> if cronExpression s = [] then Inl (Error ''Invalid schedule: missing cronExpression'')
                  else Inr ())"

section \<open>The scheduler (cronScheduler.js)\<close>

text \<open>
  The scheduler has the flag \<open>isRunning\<close> and the map \<open>jobs\<close> from the name of a job to the job;
  of a job the model keeps whether it was started. \<open>cron.schedule\<close> of the node-cron library
  throws for an expression it rejects: its answer is a parameter. The orchestrator is a
  parameter of the constructor of the scheduler, and its \<open>runDailyCycle\<close> a parameter here.
\<close>

record CronScheduler =
  jobs :: "string \<rightharpoonup> bool"
  isRunning :: bool

definition newCronScheduler :: CronScheduler where
  "newCronScheduler = \<lparr> jobs = Map.empty, isRunning = False \<rparr>"

record CronEnv =
  COMMIT_MODE :: "string option"
  randomMinute :: nat
  randomHour :: nat
  cron_schedule :: "string \<Rightarrow> error option"

definition start :: "CronEnv \<Rightarrow> CronScheduler \<Rightarrow> error + CronScheduler" where
  "start env s =
     (if isRunning s then Inr s
      else (let schedule = getCurrentSchedule (COMMIT_MODE env) (randomMinute env) (randomHour env)
            in case validateSchedule schedule of
                 Inl e \<Rightarrow> Inl e
               | Inr u \<Rightarrow>
                   (case schedule of
                      None \<Rightarrow> Inl (Error ''Invalid schedule: missing cronExpression'')
                    | Some sch \<Rightarrow>
                        (case cron_schedule env (cronExpression sch) of
                           Some e \<Rightarrow> Inl e
                         | None \<Rightarrow> Inr (s\<lparr>jobs := (jobs s)(''dailyDevelopment'' \<mapsto> True), isRunning := True\<rparr>)))))"

definition stop :: "CronScheduler \<Rightarrow> CronScheduler" where
  "stop s = s\<lparr>jobs := Map.empty, isRunning := False\<rparr>"

datatype 'r TriggerResult =
    ProjectCompleted \<comment> \<open>\<open>{ status: "Project completed" }\<close>\<close>
  | CycleResult 'r \<comment> \<open>the result of \<open>runDailyCycle\<close>\<close>

record 'r Trigger =
  outcome :: "error + 'r TriggerResult"
  scheduler :: CronScheduler \<comment> \<open>the scheduler after the call\<close>
  memory :: MemoryService \<comment> \<open>the memory service after the call\<close>
  cycleStartedWith :: "CronScheduler option"
    \<comment> \<open>the scheduler at the moment \<open>runDailyCycle\<close> was called, if it was\<close>

definition triggerManualCycle ::
  "CronEnv \<Rightarrow> (MemoryService \<Rightarrow> (error + 'r) \<times> MemoryService) \<Rightarrow> CronScheduler \<Rightarrow> MemoryService \<Rightarrow> 'r Trigger" where
  "triggerManualCycle env runDailyCycle s m =
     (case (if \<not> isRunning s then start env s else Inr s) of
        Inl e \<Rightarrow> \<lparr> outcome = Inl e, scheduler = s, memory = m, cycleStartedWith = None \<rparr>
      | Inr s1 \<Rightarrow>
          if isProjectCompleted m
          then \<lparr> outcome = Inr ProjectCompleted, scheduler = s1, memory = m, cycleStartedWith = None \<rparr>
          else (case runDailyCycle m of
                  (Inl e, m') \<Rightarrow> \<lparr> outcome = Inl e, scheduler = s1, memory = m', cycleStartedWith = Some s1 \<rparr>
                | (Inr result, m') \<Rightarrow>
                    \<lparr> outcome = Inr (CycleResult result), scheduler = s1, memory = m', cycleStartedWith = Some s1 \<rparr>))"

section \<open>Properties of the repository name\<close>

lemma replaceRuns_keeps: "c \<in> set s \<Longrightarrow> \<not> P c \<Longrightarrow> c \<in> set (replaceRuns P r s)"
  by (induction P r s rule: replaceRuns.induct) auto

lemma replaceRuns_set: "c \<in> set (replaceRuns P r s) \<Longrightarrow> (c \<in> set s \<and> \<not> P c) \<or> c \<in> set r"
  by (induction P r s rule: replaceRuns.induct) (auto split: if_splits)

lemma replaceRuns_all: "\<forall>c\<in>set s. P c \<Longrightarrow> replaceRuns P r s = (if s = [] then [] else r)"
  by (induction P r s rule: replaceRuns.induct) auto

lemma replaceRuns_Cons_keep: "\<not> P c \<Longrightarrow> replaceRuns P r (c # cs) = c # replaceRuns P r cs"
  by (cases cs) auto

lemma noAdjacent_Cons: "\<not> P c \<Longrightarrow> noAdjacent P (c # s) = noAdjacent P s"
  by (cases s) auto

lemma noAdjacent_replaceRuns: "noAdjacent P (replaceRuns P [r] s)"
proof (induction s rule: induct_list012)
  case 1 show ?case by simp
next
  case (2 c) show ?case by simp
next
  case (3 c d cs)
  show ?case
  proof (cases "P c")
    case True
    show ?thesis
    proof (cases "P d")
      case True with \<open>P c\<close> 3 show ?thesis by simp
    next
      case False
      with 3 \<open>P c\<close> show ?thesis
        by (simp add: replaceRuns_Cons_keep noAdjacent_Cons)
    qed
  next
    case False
    with 3 show ?thesis by (simp add: noAdjacent_Cons)
  qed
qed

lemma noAdjacent_tl: "noAdjacent P (c # s) \<Longrightarrow> noAdjacent P s"
  by (cases s) auto

lemma noAdjacent_butlast: "noAdjacent P s \<Longrightarrow> noAdjacent P (butlast s)"
  by (induction P s rule: noAdjacent.induct) (auto split: if_splits)

lemma noAdjacent_take: "noAdjacent P s \<Longrightarrow> noAdjacent P (take n s)"
proof (induction P s arbitrary: n rule: noAdjacent.induct)
  case (1 P) show ?case by simp
next
  case (2 P c) show ?case by (cases n) auto
next
  case (3 P c d cs)
  show ?case
  proof (cases n)
    case 0 then show ?thesis by simp
  next
    case (Suc m)
    show ?thesis
    proof (cases m)
      case 0 with Suc show ?thesis by simp
    next
      case (Suc k)
      from 3 have "noAdjacent P (take m (d # cs))" by simp
      with Suc \<open>n = Suc m\<close> 3(2) show ?thesis by simp
    qed
  qed
qed

lemma strip_alt: "stripEdgeHyphens s = (let s1 = dropLeadHyphen s in if s1 \<noteq> [] \<and> isHyphen (last s1) then butlast s1 else s1)"
  by (simp add: stripEdgeHyphens_def)

lemma noDouble_dropLead: "noAdjacent isHyphen s \<Longrightarrow> noAdjacent isHyphen (dropLeadHyphen s)"
  by (auto simp: dropLeadHyphen_def split: list.splits dest: noAdjacent_tl)

lemma dropLead_hd: "noAdjacent isHyphen s \<Longrightarrow> dropLeadHyphen s \<noteq> [] \<Longrightarrow> \<not> isHyphen (hd (dropLeadHyphen s))"
  by (cases s; cases "tl s") (auto simp: dropLeadHyphen_def)

lemma noDouble_strip: "noAdjacent isHyphen s \<Longrightarrow> noAdjacent isHyphen (stripEdgeHyphens s)"
  by (simp add: strip_alt Let_def noDouble_dropLead noAdjacent_butlast)

lemma noDouble_last: "noAdjacent P s \<Longrightarrow> s \<noteq> [] \<Longrightarrow> P (last s) \<Longrightarrow> butlast s \<noteq> [] \<Longrightarrow> \<not> P (last (butlast s))"
  by (induction P s rule: noAdjacent.induct) (auto split: if_splits)

lemma hd_butlast: "butlast s \<noteq> [] \<Longrightarrow> hd (butlast s) = hd s"
  by (cases s) (auto split: if_splits)

lemma strip_no_leading:
  assumes "noAdjacent isHyphen s" "stripEdgeHyphens s \<noteq> []"
  shows "\<not> isHyphen (hd (stripEdgeHyphens s))"
  using assms dropLead_hd[of s]
  by (auto simp: strip_alt Let_def hd_butlast split: if_splits)

lemma strip_no_trailing:
  assumes "noAdjacent isHyphen s" "stripEdgeHyphens s \<noteq> []"
  shows "\<not> isHyphen (last (stripEdgeHyphens s))"
  using assms noDouble_last[of isHyphen "dropLeadHyphen s"] noDouble_dropLead[of s]
  by (auto simp: strip_alt Let_def split: if_splits)

lemma strip_set: "set (stripEdgeHyphens s) \<subseteq> set s"
  by (auto simp: strip_alt Let_def dropLeadHyphen_def split: list.splits if_splits dest: in_set_butlastD)

lemma in_butlast: "c \<in> set s \<Longrightarrow> c \<noteq> last s \<Longrightarrow> c \<in> set (butlast s)"
  by (induction s) (auto split: if_splits)

lemma strip_keeps: "c \<in> set s \<Longrightarrow> \<not> isHyphen c \<Longrightarrow> c \<in> set (stripEdgeHyphens s)"
proof -
  assume a: "c \<in> set s" "\<not> isHyphen c"
  then have d: "c \<in> set (dropLeadHyphen s)"
    by (cases s) (auto simp: dropLeadHyphen_def)
  show ?thesis
  proof (cases "dropLeadHyphen s \<noteq> [] \<and> isHyphen (last (dropLeadHyphen s))")
    case True
    with a have "c \<noteq> last (dropLeadHyphen s)" by auto
    with d have "c \<in> set (butlast (dropLeadHyphen s))" by (rule in_butlast)
    with True show ?thesis by (simp add: strip_alt)
  next
    case False
    with d show ?thesis by (auto simp: strip_alt Let_def)
  qed
qed

lemma alnum_not_space: "isLowerAlnum c \<Longrightarrow> \<not> isSpace c"
  by (auto simp: isLowerAlnum_def isSpace_def Let_def)

lemma alnum_not_hyphen: "isLowerAlnum c \<Longrightarrow> \<not> isHyphen c"
  by (auto simp: isLowerAlnum_def isHyphen_def Let_def)

lemma slug_chars: "c \<in> set (slugUncapped title) \<Longrightarrow> slugChar c"
proof -
  assume "c \<in> set (slugUncapped title)"
  then have "c \<in> set (replaceRuns isHyphen ''-'' (replaceRuns isSpace ''-''
           (filter (\<lambda>c. isLowerAlnum c \<or> isSpace c \<or> isHyphen c) (toLowerCase title))))"
    using strip_set by (auto simp: slugUncapped_def)
  then have "isHyphen c \<or> c \<in> set (replaceRuns isSpace ''-''
           (filter (\<lambda>c. isLowerAlnum c \<or> isSpace c \<or> isHyphen c) (toLowerCase title)))"
    by (auto dest!: replaceRuns_set simp: isHyphen_def)
  then have "isHyphen c \<or> (\<not> isSpace c \<and> c \<in> set (filter (\<lambda>c. isLowerAlnum c \<or> isSpace c \<or> isHyphen c) (toLowerCase title)))"
    by (auto dest!: replaceRuns_set simp: isHyphen_def)
  then show "slugChar c" by (auto simp: slugChar_def)
qed

lemma slug_noDouble: "noAdjacent isHyphen (slugUncapped title)"
  by (simp add: slugUncapped_def noDouble_strip noAdjacent_replaceRuns)

lemma slug_empty_iff: "slugUncapped title = [] \<longleftrightarrow> \<not> (\<exists>c\<in>set title. isLowerAlnum (lowerChar c))"
proof
  assume e: "slugUncapped title = []"
  show "\<not> (\<exists>c\<in>set title. isLowerAlnum (lowerChar c))"
  proof
    assume "\<exists>c\<in>set title. isLowerAlnum (lowerChar c)"
    then obtain c where c: "c \<in> set title" "isLowerAlnum (lowerChar c)" by blast
    let ?d = "lowerChar c"
    let ?F = "filter (\<lambda>c. isLowerAlnum c \<or> isSpace c \<or> isHyphen c) (toLowerCase title)"
    from c have nsp: "\<not> isSpace ?d" and nh: "\<not> isHyphen ?d"
      by (auto dest: alnum_not_space alnum_not_hyphen)
    from c have f: "?d \<in> set ?F"
      by (auto simp: toLowerCase_def)
    have a: "?d \<in> set (replaceRuns isSpace ''-'' ?F)"
      using f nsp by (rule replaceRuns_keeps[where P = isSpace])
    have b: "?d \<in> set (replaceRuns isHyphen ''-'' (replaceRuns isSpace ''-'' ?F))"
      using a nh by (rule replaceRuns_keeps[where P = isHyphen])
    have "?d \<in> set (slugUncapped title)"
      unfolding slugUncapped_def using b nh by (rule strip_keeps)
    with e show False by simp
  qed
next
  assume n: "\<not> (\<exists>c\<in>set title. isLowerAlnum (lowerChar c))"
  let ?F = "filter (\<lambda>c. isLowerAlnum c \<or> isSpace c \<or> isHyphen c) (toLowerCase title)"
  let ?A = "replaceRuns isSpace ''-'' ?F"
  from n have F: "\<forall>c\<in>set ?F. isSpace c \<or> isHyphen c"
    by (auto simp: toLowerCase_def)
  have "\<forall>c\<in>set ?A. isHyphen c"
  proof
    fix c assume "c \<in> set ?A"
    then have "(c \<in> set ?F \<and> \<not> isSpace c) \<or> c \<in> set ''-''" by (rule replaceRuns_set)
    with F show "isHyphen c" by (auto simp: isHyphen_def)
  qed
  then have "replaceRuns isHyphen ''-'' ?A = (if ?A = [] then [] else ''-'')"
    by (rule replaceRuns_all)
  then show "slugUncapped title = []"
    by (auto simp: slugUncapped_def stripEdgeHyphens_def dropLeadHyphen_def isHyphen_def split: if_splits)
qed

text \<open>
  Claim C7, as the code has it. For every title the repository name consists of characters
  of \<open>[a-z0-9-]\<close> only, has at most 100 characters, has no two hyphens in a row and no
  hyphen at the start; it has no hyphen at the end when the name before \<open>substring(0, 100)\<close>
  has at most 100 characters; it is empty exactly when no character of the title is in
  \<open>[a-z0-9]\<close> after \<open>toLowerCase\<close>; and the title \<open>My Cool App!! 2.0\<close> gives
  \<open>my-cool-app-20\<close>.
\<close>

theorem repoName_slug:
  "(\<forall>c\<in>set (repoName title). slugChar c)
   \<and> length (repoName title) \<le> 100
   \<and> noAdjacent isHyphen (repoName title)
   \<and> (repoName title \<noteq> [] \<longrightarrow> \<not> isHyphen (hd (repoName title)))
   \<and> (length (slugUncapped title) \<le> 100 \<longrightarrow> repoName title \<noteq> [] \<longrightarrow> \<not> isHyphen (last (repoName title)))
   \<and> (repoName title = [] \<longleftrightarrow> \<not> (\<exists>c\<in>set title. isLowerAlnum (lowerChar c)))
   \<and> repoName ''My Cool App!! 2.0'' = ''my-cool-app-20''"
proof -
  have nd: "noAdjacent isHyphen (replaceRuns isHyphen ''-'' (replaceRuns isSpace ''-''
           (filter (\<lambda>c. isLowerAlnum c \<or> isSpace c \<or> isHyphen c) (toLowerCase title))))"
    by (rule noAdjacent_replaceRuns)
  have 1: "\<forall>c\<in>set (repoName title). slugChar c"
    by (auto simp: repoName_def dest: in_set_takeD slug_chars)
  have 2: "length (repoName title) \<le> 100" by (simp add: repoName_def)
  have 3: "noAdjacent isHyphen (repoName title)"
    by (simp add: repoName_def noAdjacent_take slug_noDouble)
  have 4: "repoName title \<noteq> [] \<longrightarrow> \<not> isHyphen (hd (repoName title))"
    using strip_no_leading[OF nd] by (auto simp: repoName_def slugUncapped_def)
  have 5: "length (slugUncapped title) \<le> 100 \<longrightarrow> repoName title \<noteq> [] \<longrightarrow> \<not> isHyphen (last (repoName title))"
    using strip_no_trailing[OF nd] by (auto simp: repoName_def slugUncapped_def)
  have 6: "repoName title = [] \<longleftrightarrow> \<not> (\<exists>c\<in>set title. isLowerAlnum (lowerChar c))"
    using slug_empty_iff[of title] by (simp add: repoName_def)
  have 7: "repoName ''My Cool App!! 2.0'' = ''my-cool-app-20''" by code_simp
  from 1 2 3 4 5 6 7 show ?thesis by blast
qed

text \<open>
  Claim C7, witness: the title \<open>My Cool App!! 2.0\<close> meets every hypothesis of
  \<open>repoName_slug\<close>, which then gives the properties of its repository name.
\<close>

theorem repoName_slug_witness:
  "length (slugUncapped ''My Cool App!! 2.0'') \<le> 100 \<and> repoName ''My Cool App!! 2.0'' \<noteq> []
   \<and> (\<exists>c\<in>set ''My Cool App!! 2.0''. isLowerAlnum (lowerChar c))
   \<and> list_all slugChar (repoName ''My Cool App!! 2.0'')
   \<and> \<not> isHyphen (hd (repoName ''My Cool App!! 2.0''))
   \<and> \<not> isHyphen (last (repoName ''My Cool App!! 2.0''))"
proof -
  have l: "length (slugUncapped ''My Cool App!! 2.0'') \<le> 100" by code_simp
  have n: "repoName ''My Cool App!! 2.0'' \<noteq> []" by code_simp
  show ?thesis using l n repoName_slug[of "''My Cool App!! 2.0''"]
    unfolding list_all_iff by blast
qed

text \<open>
  Claim C7 as stated asks for a name of 1 to 100 characters for every title. The title
  \<open>!!!\<close> has no character of \<open>[a-z0-9]\<close>: every character is removed and the name is empty.
\<close>

theorem repoName_counterexample:
  "repoName ''!!!'' = [] \<and> \<not> (1 \<le> length (repoName ''!!!''))"
  by code_simp

section \<open>Properties of the target path\<close>







lemma startsWith_dotslash: "startsWith s ''./'' \<longleftrightarrow> (\<exists>r. s = ''./'' @ r)"
  by (cases s; cases "tl s") auto


































section \<open>Properties of the memory service\<close>

lemma scanProjectSpec_skip:
  "\<forall>e\<in>set pre. \<not> includes_str e ''projectSpec'' \<Longrightarrow> scanProjectSpec parse (pre @ rest) = scanProjectSpec parse rest"
  by (induction pre) auto










lemma scanSavedTasks_append:
  "scanSavedTasks parse pre = None \<Longrightarrow> scanSavedTasks parse (pre @ rest) = scanSavedTasks parse rest"
  by (induction parse pre rule: scanSavedTasks.induct)
     (auto split: if_splits option.splits json.splits)

lemma scanSavedTasks_hit:
  "tasksEntry parse e tasks \<Longrightarrow> tasks \<noteq> [] \<Longrightarrow> scanSavedTasks parse (e # rest) = Some tasks"
  by (simp add: tasksEntry_def)

text \<open>
  Claim C4, as the code has it. The local queue being an array, \<open>getRemainingTasks\<close>
  returns it and does not read the log; for a new service that is the empty array,
  whatever the log holds. The log
  is read by \<open>continueDevelopment\<close>: when the local queue is empty and the first entry of the
  log that holds a non-empty array of tasks holds \<open>tasks\<close> (the entries before it holding
  none), \<open>getRemainingTasks\<close> returns the empty array, \<open>continueDevelopment\<close> returns true
  and makes \<open>tasks\<close> the local queue, not completed, and \<open>getRemainingTasks\<close> then returns
  exactly \<open>tasks\<close>, in their order. A log of that one entry is the case of no entry before
  and none after.
\<close>

theorem cold_cache_recovery:
  "getRemainingTasks parse m = remainingTasks (projectState m)
   \<and> getRemainingTasks parse (constructor\<lparr>past_steps := steps\<rparr>) = []
   \<and> (remainingTasks (projectState m) = [] \<and> past_steps m = pre @ e # post
        \<and> scanSavedTasks parse pre = None \<and> tasksEntry parse e tasks \<and> tasks \<noteq> []
      \<longrightarrow> getRemainingTasks parse m = []
          \<and> continueDevelopment t parse m
              = (True, m\<lparr>projectState := (projectState m)\<lparr>remainingTasks := tasks, isCompleted := False,
                                                          lastUpdated := Some t\<rparr>\<rparr>)
          \<and> getRemainingTasks parse (snd (continueDevelopment t parse m)) = tasks)"
proof (intro conjI impI)
  show "getRemainingTasks parse m = remainingTasks (projectState m)"
    by (simp add: getRemainingTasks_def)
  show "getRemainingTasks parse (constructor\<lparr>past_steps := steps\<rparr>) = []"
    by (simp add: getRemainingTasks_def constructor_def)
next
  assume a: "remainingTasks (projectState m) = [] \<and> past_steps m = pre @ e # post
        \<and> scanSavedTasks parse pre = None \<and> tasksEntry parse e tasks \<and> tasks \<noteq> []"
  then have p: "scanSavedTasks parse pre = None" and h: "tasksEntry parse e tasks" and n: "tasks \<noteq> []"
    by simp_all
  have "scanSavedTasks parse (pre @ e # post) = scanSavedTasks parse (e # post)"
    using p by (rule scanSavedTasks_append)
  also have "\<dots> = Some tasks" using h n by (rule scanSavedTasks_hit)
  finally have s: "scanSavedTasks parse (pre @ e # post) = Some tasks" .
  from a show "getRemainingTasks parse m = []" by (simp add: getRemainingTasks_def)
  from a s show c: "continueDevelopment t parse m
              = (True, m\<lparr>projectState := (projectState m)\<lparr>remainingTasks := tasks, isCompleted := False,
                                                          lastUpdated := Some t\<rparr>\<rparr>)"
    by (simp add: continueDevelopment_def)
  show "getRemainingTasks parse (snd (continueDevelopment t parse m)) = tasks"
    unfolding c by (simp add: getRemainingTasks_def)
qed

text \<open>
  Claim C4, witness: the log of the two messages that \<open>updateRemainingTasks\<close> saves for the
  tasks \<open>a\<close> and \<open>b\<close>, read by a new service.
\<close>

theorem cold_cache_recovery_witness:
  \<open>scanSavedTasks
      (map_of [(''{"remainingTasks":"update"}'', JObj [(''remainingTasks'', JStr ''update'')]),
               (''{"remainingTasks":[{"title":"a"},{"title":"b"}]}'',
                JObj [(''remainingTasks'', JArr [JObj [(''title'', JStr ''a'')], JObj [(''title'', JStr ''b'')]])])])
      [''{"remainingTasks":"update"}''] = None
   \<and> tasksEntry
      (map_of [(''{"remainingTasks":"update"}'', JObj [(''remainingTasks'', JStr ''update'')]),
               (''{"remainingTasks":[{"title":"a"},{"title":"b"}]}'',
                JObj [(''remainingTasks'', JArr [JObj [(''title'', JStr ''a'')], JObj [(''title'', JStr ''b'')]])])])
      ''{"remainingTasks":[{"title":"a"},{"title":"b"}]}''
      [JObj [(''title'', JStr ''a'')], JObj [(''title'', JStr ''b'')]]
   \<and> past_steps (updateRemainingTasks ''2024-01-01''
        [JObj [(''title'', JStr ''a'')], JObj [(''title'', JStr ''b'')]] constructor)
       = [''{"remainingTasks":"update"}'', ''{"remainingTasks":[{"title":"a"},{"title":"b"}]}'']
   \<and> getRemainingTasks
      (map_of [(''{"remainingTasks":"update"}'', JObj [(''remainingTasks'', JStr ''update'')]),
               (''{"remainingTasks":[{"title":"a"},{"title":"b"}]}'',
                JObj [(''remainingTasks'', JArr [JObj [(''title'', JStr ''a'')], JObj [(''title'', JStr ''b'')]])])])
      (constructor\<lparr>past_steps := [''{"remainingTasks":"update"}'',
                                   ''{"remainingTasks":[{"title":"a"},{"title":"b"}]}'']\<rparr>) = []
   \<and> fst (continueDevelopment ''2024-01-02''
      (map_of [(''{"remainingTasks":"update"}'', JObj [(''remainingTasks'', JStr ''update'')]),
               (''{"remainingTasks":[{"title":"a"},{"title":"b"}]}'',
                JObj [(''remainingTasks'', JArr [JObj [(''title'', JStr ''a'')], JObj [(''title'', JStr ''b'')]])])])
      (constructor\<lparr>past_steps := [''{"remainingTasks":"update"}'',
                                   ''{"remainingTasks":[{"title":"a"},{"title":"b"}]}'']\<rparr>))
   \<and> getRemainingTasks
      (map_of [(''{"remainingTasks":"update"}'', JObj [(''remainingTasks'', JStr ''update'')]),
               (''{"remainingTasks":[{"title":"a"},{"title":"b"}]}'',
                JObj [(''remainingTasks'', JArr [JObj [(''title'', JStr ''a'')], JObj [(''title'', JStr ''b'')]])])])
      (snd (continueDevelopment ''2024-01-02''
        (map_of [(''{"remainingTasks":"update"}'', JObj [(''remainingTasks'', JStr ''update'')]),
                 (''{"remainingTasks":[{"title":"a"},{"title":"b"}]}'',
                  JObj [(''remainingTasks'', JArr [JObj [(''title'', JStr ''a'')], JObj [(''title'', JStr ''b'')]])])])
        (constructor\<lparr>past_steps := [''{"remainingTasks":"update"}'',
                                     ''{"remainingTasks":[{"title":"a"},{"title":"b"}]}'']\<rparr>)))
     = [JObj [(''title'', JStr ''a'')], JObj [(''title'', JStr ''b'')]]\<close>
proof -
  let ?parse = \<open>map_of [(''{"remainingTasks":"update"}'', JObj [(''remainingTasks'', JStr ''update'')]),
               (''{"remainingTasks":[{"title":"a"},{"title":"b"}]}'',
                JObj [(''remainingTasks'', JArr [JObj [(''title'', JStr ''a'')], JObj [(''title'', JStr ''b'')]])])]\<close>
  let ?e = \<open>''{"remainingTasks":[{"title":"a"},{"title":"b"}]}''\<close>
  let ?u = \<open>''{"remainingTasks":"update"}''\<close>
  let ?tasks = "[JObj [(''title'', JStr ''a'')], JObj [(''title'', JStr ''b'')]]"
  let ?m = "constructor\<lparr>past_steps := [?u, ?e]\<rparr>"
  have q: "remainingTasks (projectState ?m) = []" by (simp add: constructor_def)
  have l: "past_steps ?m = [?u] @ ?e # []" by simp
  have p: "scanSavedTasks ?parse [?u] = None" by code_simp
  have h: "tasksEntry ?parse ?e ?tasks" by code_simp
  have n: "?tasks \<noteq> []" by simp
  have w: "past_steps (updateRemainingTasks ''2024-01-01'' ?tasks constructor) = [?u, ?e]" by code_simp
  from cold_cache_recovery[where m = ?m and parse = ?parse and pre = "[?u]" and e = ?e and post = "[]"
      and tasks = ?tasks and t = "''2024-01-02''"] q l p h n
  have r: "getRemainingTasks ?parse ?m = []
      \<and> continueDevelopment ''2024-01-02'' ?parse ?m
          = (True, ?m\<lparr>projectState := (projectState ?m)\<lparr>remainingTasks := ?tasks, isCompleted := False,
                                                      lastUpdated := Some ''2024-01-02''\<rparr>\<rparr>)
      \<and> getRemainingTasks ?parse (snd (continueDevelopment ''2024-01-02'' ?parse ?m)) = ?tasks"
    by blast
  then have f: "fst (continueDevelopment ''2024-01-02'' ?parse ?m)" by simp
  from r f p h w show ?thesis by blast
qed

text \<open>
  Claim C4 as stated has the read of the remaining tasks yield the tasks of the log. A new
  service whose log is the one entry with the tasks \<open>a\<close> and \<open>b\<close> has the empty array as
  its local queue, and \<open>getRemainingTasks\<close> returns that.
\<close>

theorem getRemainingTasks_counterexample:
  \<open>tasksEntry
      (map_of [(''{"remainingTasks":[{"title":"a"},{"title":"b"}]}'',
                JObj [(''remainingTasks'', JArr [JObj [(''title'', JStr ''a'')], JObj [(''title'', JStr ''b'')]])])])
      ''{"remainingTasks":[{"title":"a"},{"title":"b"}]}''
      [JObj [(''title'', JStr ''a'')], JObj [(''title'', JStr ''b'')]]
   \<and> getRemainingTasks
        (map_of [(''{"remainingTasks":[{"title":"a"},{"title":"b"}]}'',
                  JObj [(''remainingTasks'', JArr [JObj [(''title'', JStr ''a'')], JObj [(''title'', JStr ''b'')]])])])
        (constructor\<lparr>past_steps := [''{"remainingTasks":[{"title":"a"},{"title":"b"}]}'']\<rparr>) = []
   \<and> [] \<noteq> [JObj [(''title'', JStr ''a'')], JObj [(''title'', JStr ''b'')]]\<close>
  by code_simp

lemma startsWith_prefix: "startsWith s (p @ q) \<Longrightarrow> startsWith s p"
  by (induction s p rule: startsWith.induct) auto

lemma matchProjectSpec_includes:
  "matchProjectSpec s = Some g \<Longrightarrow> includes_str s ''projectSpec''"
proof (induction s)
  case Nil then show ?case by simp
next
  case (Cons c cs)
  show ?case
  proof (cases \<open>startsWith (c # cs) ''projectSpec":"''\<close>)
    case True
    then have \<open>startsWith (c # cs) (''projectSpec'' @ ''":"'')\<close> by simp
    then have "startsWith (c # cs) ''projectSpec''" by (rule startsWith_prefix)
    then show ?thesis by simp
  next
    case False
    with Cons.prems have "matchProjectSpec cs = Some g" by (simp del: startsWith.simps)
    then have "includes_str cs ''projectSpec''" by (rule Cons.IH)
    then show ?thesis by simp
  qed
qed

text \<open>
  Claim C5, as the code has it, with the local \<open>projectSpec\<close> not set. A malformed entry
  (\<open>JSON.parse\<close> throws) that the pattern \<open>/projectSpec":"(.*?)"/\<close> of the \<open>catch\<close> block does
  not match is skipped: a log of one such entry and one well-formed \<open>projectSpec\<close> entry, in
  either order, yields the well-formed specification. A malformed entry that the pattern
  matches with group \<open>g\<close> is not skipped: when no entry before it mentions \<open>projectSpec\<close>,
  the scan ends there and yields the string \<open>g\<close> with every backslash-quote replaced by a
  quote and then every backslash-n by a line feed, whatever follows in the log.
\<close>

theorem getProjectSpec_tolerant:
  "(\<not> truthy (projectSpec (projectState m)) \<and> parse bad = None \<and> matchProjectSpec bad = None
     \<and> specEntry parse good v \<and> (past_steps m = [bad, good] \<or> past_steps m = [good, bad])
    \<longrightarrow> getProjectSpec parse m = v)
   \<and> (\<not> truthy (projectSpec (projectState m)) \<and> parse bad = None \<and> matchProjectSpec bad = Some g
     \<and> past_steps m = pre @ bad # rest \<and> (\<forall>e\<in>set pre. \<not> includes_str e ''projectSpec'')
    \<longrightarrow> getProjectSpec parse m = JStr (unescapeSpec g))"
proof (intro conjI impI)
  assume "\<not> truthy (projectSpec (projectState m)) \<and> parse bad = None \<and> matchProjectSpec bad = None
     \<and> specEntry parse good v \<and> (past_steps m = [bad, good] \<or> past_steps m = [good, bad])"
  then show "getProjectSpec parse m = v"
    by (auto simp: getProjectSpec_def specEntry_def parsedProp_def)
next
  assume a: "\<not> truthy (projectSpec (projectState m)) \<and> parse bad = None \<and> matchProjectSpec bad = Some g
     \<and> past_steps m = pre @ bad # rest \<and> (\<forall>e\<in>set pre. \<not> includes_str e ''projectSpec'')"
  then have s: "\<forall>e\<in>set pre. \<not> includes_str e ''projectSpec''" and g: "matchProjectSpec bad = Some g"
    and p: "parse bad = None"
    by simp_all
  from g have i: "includes_str bad ''projectSpec''" by (rule matchProjectSpec_includes)
  have "scanProjectSpec parse (pre @ bad # rest) = scanProjectSpec parse (bad # rest)"
    using s by (rule scanProjectSpec_skip)
  also have "\<dots> = JStr (unescapeSpec g)" using i g p by (simp add: parsedProp_def)
  finally have "scanProjectSpec parse (pre @ bad # rest) = JStr (unescapeSpec g)" .
  with a show "getProjectSpec parse m = JStr (unescapeSpec g)"
    by (simp add: getProjectSpec_def)
qed

text \<open>
  Claim C5, witness: the truncated entry \<open>{"projectSpec":\<close> before a well-formed one, and a
  truncated entry that the pattern matches, with a backslash-n in the group.
\<close>

theorem getProjectSpec_tolerant_witness:
  \<open>map_of [(''{"projectSpec":"real"}'', JObj [(''projectSpec'', JStr ''real'')])] ''{"projectSpec":'' = None
   \<and> matchProjectSpec ''{"projectSpec":'' = None
   \<and> specEntry (map_of [(''{"projectSpec":"real"}'', JObj [(''projectSpec'', JStr ''real'')])])
        ''{"projectSpec":"real"}'' (JStr ''real'')
   \<and> getProjectSpec (map_of [(''{"projectSpec":"real"}'', JObj [(''projectSpec'', JStr ''real'')])])
        (constructor\<lparr>past_steps := [''{"projectSpec":'', ''{"projectSpec":"real"}'']\<rparr>) = JStr ''real''
   \<and> map_of [(''{"projectSpec":"real"}'', JObj [(''projectSpec'', JStr ''real'')])]
        [CHR ''{'', CHR 0x22, CHR ''p'', CHR ''r'', CHR ''o'', CHR ''j'', CHR ''e'', CHR ''c'', CHR ''t'',
         CHR ''S'', CHR ''p'', CHR ''e'', CHR ''c'', CHR 0x22, CHR '':'', CHR 0x22,
         CHR ''a'', CHR 0x5C, CHR ''n'', CHR ''b'', CHR 0x5C, CHR 0x22] = None
   \<and> matchProjectSpec
        [CHR ''{'', CHR 0x22, CHR ''p'', CHR ''r'', CHR ''o'', CHR ''j'', CHR ''e'', CHR ''c'', CHR ''t'',
         CHR ''S'', CHR ''p'', CHR ''e'', CHR ''c'', CHR 0x22, CHR '':'', CHR 0x22,
         CHR ''a'', CHR 0x5C, CHR ''n'', CHR ''b'', CHR 0x5C, CHR 0x22] = Some [CHR ''a'', CHR 0x5C, CHR ''n'', CHR ''b'', CHR 0x5C]
   \<and> unescapeSpec [CHR ''a'', CHR 0x5C, CHR ''n'', CHR ''b'', CHR 0x5C] = [CHR ''a'', CHR 0x0A, CHR ''b'', CHR 0x5C]
   \<and> getProjectSpec (map_of [(''{"projectSpec":"real"}'', JObj [(''projectSpec'', JStr ''real'')])])
        (constructor\<lparr>past_steps := [''{"step":"initialization"}'',
           [CHR ''{'', CHR 0x22, CHR ''p'', CHR ''r'', CHR ''o'', CHR ''j'', CHR ''e'', CHR ''c'', CHR ''t'',
            CHR ''S'', CHR ''p'', CHR ''e'', CHR ''c'', CHR 0x22, CHR '':'', CHR 0x22,
            CHR ''a'', CHR 0x5C, CHR ''n'', CHR ''b'', CHR 0x5C, CHR 0x22],
           ''{"projectSpec":"real"}'']\<rparr>)
       = JStr [CHR ''a'', CHR 0x0A, CHR ''b'', CHR 0x5C]\<close>
proof -
  let ?parse = \<open>map_of [(''{"projectSpec":"real"}'', JObj [(''projectSpec'', JStr ''real'')])]\<close>
  let ?m = \<open>constructor\<lparr>past_steps := [''{"projectSpec":'', ''{"projectSpec":"real"}'']\<rparr>\<close>
  let ?bad = \<open>[CHR ''{'', CHR 0x22, CHR ''p'', CHR ''r'', CHR ''o'', CHR ''j'', CHR ''e'', CHR ''c'', CHR ''t'',
         CHR ''S'', CHR ''p'', CHR ''e'', CHR ''c'', CHR 0x22, CHR '':'', CHR 0x22,
         CHR ''a'', CHR 0x5C, CHR ''n'', CHR ''b'', CHR 0x5C, CHR 0x22]\<close>
  let ?g = \<open>[CHR ''a'', CHR 0x5C, CHR ''n'', CHR ''b'', CHR 0x5C]\<close>
  let ?m2 = \<open>constructor\<lparr>past_steps := [''{"step":"initialization"}'', ?bad, ''{"projectSpec":"real"}'']\<rparr>\<close>
  have c: "\<not> truthy (projectSpec (projectState ?m))" by (simp add: constructor_def)
  have b: \<open>?parse ''{"projectSpec":'' = None\<close> by code_simp
  have r: \<open>matchProjectSpec ''{"projectSpec":'' = None\<close> by code_simp
  have e: \<open>specEntry ?parse ''{"projectSpec":"real"}'' (JStr ''real'')\<close> by code_simp
  have l: \<open>past_steps ?m = [''{"projectSpec":'', ''{"projectSpec":"real"}'']\<close> by simp
  from getProjectSpec_tolerant[where m = ?m and parse = ?parse and bad = \<open>''{"projectSpec":''\<close>
       and good = \<open>''{"projectSpec":"real"}''\<close> and v = "JStr ''real''"] c b r e l
  have 1: "getProjectSpec ?parse ?m = JStr ''real''" by blast
  have c2: "\<not> truthy (projectSpec (projectState ?m2))" by (simp add: constructor_def)
  have b2: \<open>?parse ?bad = None\<close> by code_simp
  have r2: \<open>matchProjectSpec ?bad = Some ?g\<close> by code_simp
  have u2: \<open>unescapeSpec ?g = [CHR ''a'', CHR 0x0A, CHR ''b'', CHR 0x5C]\<close> by code_simp
  have l2: \<open>past_steps ?m2 = [''{"step":"initialization"}''] @ ?bad # [''{"projectSpec":"real"}'']\<close> by simp
  have p2: \<open>\<forall>e\<in>set [''{"step":"initialization"}'']. \<not> includes_str e ''projectSpec''\<close> by code_simp
  from getProjectSpec_tolerant[where m = ?m2 and parse = ?parse and bad = ?bad and g = ?g
       and pre = \<open>[''{"step":"initialization"}'']\<close> and rest = \<open>[''{"projectSpec":"real"}'']\<close>] c2 b2 r2 l2 p2
  have "getProjectSpec ?parse ?m2 = JStr (unescapeSpec ?g)" by blast
  with u2 have 2: \<open>getProjectSpec ?parse ?m2 = JStr [CHR ''a'', CHR 0x0A, CHR ''b'', CHR 0x5C]\<close> by simp
  from 1 2 b r e b2 r2 u2 show ?thesis by blast
qed

text \<open>
  Claim C5 as stated has every malformed entry skipped. The truncated entry
  \<open>{"projectSpec":"x"\<close> is not: \<open>JSON.parse\<close> throws, the pattern of the \<open>catch\<close> block
  matches, and \<open>getProjectSpec\<close> returns the text \<open>x\<close> instead of the well-formed
  specification that follows.
\<close>

theorem getProjectSpec_tolerant_counterexample:
  \<open>map_of [(''{"projectSpec":"real"}'', JObj [(''projectSpec'', JStr ''real'')])] ''{"projectSpec":"x"'' = None
   \<and> getProjectSpec (map_of [(''{"projectSpec":"real"}'', JObj [(''projectSpec'', JStr ''real'')])])
        (constructor\<lparr>past_steps := [''{"projectSpec":"x"'', ''{"projectSpec":"real"}'']\<rparr>) = JStr ''x''
   \<and> JStr ''x'' \<noteq> JStr ''real''\<close>
  by code_simp

section \<open>Properties of a development cycle\<close>

lemma projectState_saveContext [simp]: "projectState (saveContext i out m) = projectState m"
  by (simp add: saveContext_def)

lemma past_steps_saveContext [simp]: "past_steps (saveContext i out m) = past_steps m @ [formatted i, formatted out]"
  by (simp add: saveContext_def)

lemma projectState_saveTaskProgress [simp]: "projectState (saveTaskProgress t title st details m) = projectState m"
  by (simp add: saveTaskProgress_def)

lemma remainingTasks_updateRemainingTasks [simp]:
  "remainingTasks (projectState (updateRemainingTasks t updated m)) = updated"
  by (simp add: updateRemainingTasks_def markProjectCompleted_def Let_def)

lemma remainingTasks_markProjectCompleted [simp]:
  "remainingTasks (projectState (markProjectCompleted t m)) = remainingTasks (projectState m)"
  by (simp add: markProjectCompleted_def)

lemma getRemainingTasks_local: "getRemainingTasks parse m = remainingTasks (projectState m)"
  by (simp add: getRemainingTasks_def)

lemma recordCompletion_Committed:
  assumes "recordCompletion env state m remaining currentTask fullPath commitMessage codeContent
             = (Inr (Committed st msg path content title n), m', evs)"
  shows "\<exists>updated. removeCompleted remaining currentTask = Inr updated
           \<and> remainingTasks (projectState m') = updated
           \<and> title = titleOf currentTask \<and> n = length updated"
  using assms unfolding recordCompletion_def
  by (auto simp: Let_def split: sum.splits if_splits)

lemma commitTask_Committed:
  assumes "commitTask env state m nameOfRepo remaining currentTask codeContent
             = (Inr (Committed st msg path content title n), m', evs)"
  shows "\<exists>updated. removeCompleted remaining currentTask = Inr updated
           \<and> remainingTasks (projectState m') = updated
           \<and> title = titleOf currentTask \<and> n = length updated"
  using assms unfolding commitTask_def
  by (auto simp: Let_def split: sum.splits prod.splits dest: recordCompletion_Committed)

lemma developTask_Committed:
  assumes "developTask env state m spec nameOfRepo remaining currentTask
             = (Inr (Committed st msg path content title n), m', evs)"
  shows "\<exists>updated. removeCompleted remaining currentTask = Inr updated
           \<and> remainingTasks (projectState m') = updated
           \<and> title = titleOf currentTask \<and> n = length updated"
  using assms unfolding developTask_def
  by (auto simp: Let_def split: sum.splits prod.splits dest: commitTask_Committed)

lemma developBody_Committed:
  assumes "developBody env state m = (Inr (Committed st msg path content title n), m', evs)"
  shows "\<exists>currentTask updated.
           chooseTask (remainingTasks (projectState m)) (st_plan state) = Some currentTask
           \<and> removeCompleted (remainingTasks (projectState m)) currentTask = Inr updated
           \<and> remainingTasks (projectState m') = updated
           \<and> title = titleOf currentTask \<and> n = length updated"
  using assms unfolding developBody_def getRemainingTasks_local
  by (auto simp: Let_def split: sum.splits option.splits dest: developTask_Committed)

lemma developNextTask_Inr:
  "developNextTask env state m = (Inr r, m', evs) \<longleftrightarrow> developBody env state m = (Inr r, m', evs)"
  by (auto simp: developNextTask_def split: prod.splits sum.splits)


text \<open>
  Claim C9. When \<open>developNextTask\<close> returns its result for the head task \<open>t\<close> of the queue
  (the titles being strings or other primitive values), the new queue is the old queue
  without every task whose title is the title of \<open>t\<close>, in the old order: a later task with
  the same title is removed with the head. The result names the title of \<open>t\<close> and the length
  of the new queue.
\<close>

theorem successful_cycle_removes_title:
  "developNextTask env state m = (Inr (Committed st msg path content title n), m', evs)
   \<and> remainingTasks (projectState m) = t # rest
   \<and> (\<forall>task\<in>set (t # rest). primitiveTitle task)
   \<longrightarrow> remainingTasks (projectState m') = filter (\<lambda>task. titleOf task \<noteq> titleOf t) (t # rest)
       \<and> title = titleOf t
       \<and> n = length (remainingTasks (projectState m'))
       \<and> (\<forall>task\<in>set (t # rest). titleOf task = titleOf t \<longrightarrow> task \<notin> set (remainingTasks (projectState m')))"
proof (intro impI)
  assume a: "developNextTask env state m = (Inr (Committed st msg path content title n), m', evs)
   \<and> remainingTasks (projectState m) = t # rest
   \<and> (\<forall>task\<in>set (t # rest). primitiveTitle task)"
  then have b: "developBody env state m = (Inr (Committed st msg path content title n), m', evs)"
    by (simp add: developNextTask_Inr)
  from a have q: "remainingTasks (projectState m) = t # rest" by simp
  from developBody_Committed[OF b] obtain currentTask updated where
    c: "chooseTask (remainingTasks (projectState m)) (st_plan state) = Some currentTask"
    and r: "removeCompleted (remainingTasks (projectState m)) currentTask = Inr updated"
    and u: "remainingTasks (projectState m') = updated"
    and ti: "title = titleOf currentTask" and n: "n = length updated"
    by blast
  from c q have ct: "currentTask = t" by (simp add: chooseTask_def)
  from r q ct have up: "updated = filter (\<lambda>task. titleOf task \<noteq> titleOf t) (t # rest)"
    by (simp add: removeCompleted_def split: if_splits)
  from up u ti n ct
  show "remainingTasks (projectState m') = filter (\<lambda>task. titleOf task \<noteq> titleOf t) (t # rest)
       \<and> title = titleOf t
       \<and> n = length (remainingTasks (projectState m'))
       \<and> (\<forall>task\<in>set (t # rest). titleOf task = titleOf t \<longrightarrow> task \<notin> set (remainingTasks (projectState m')))"
    by auto
qed

lemma generateCode_events:
  "generateCode env spec task = (res, evs) \<Longrightarrow> ev \<in> set evs \<Longrightarrow> \<exists>p. ev = Invoke p"
  by (auto simp: generateCode_def Let_def split: sum.splits if_splits)

lemma generateCode_no_commit:
  "generateCode env spec task = (res, evs) \<Longrightarrow> CreateOrUpdateFileContents a b c d e f \<notin> set evs"
  using generateCode_events by blast

lemma commitFile_failure:
  assumes "commitFile env r p msg c = (res, evs)"
    and "CreateOrUpdateFileContents owner r' p' msg' c' sha \<in> set evs"
    and "createOrUpdateFileContents env owner r' p' msg' c' sha = Inl ce"
  shows "res = Inl (Error (''GitHub commit failed: '' @ message ce))"
  using assms
  by (auto simp: commitFile_def split: sum.splits if_splits)

lemma recordCompletion_no_commit:
  "recordCompletion env state m remaining currentTask fullPath commitMessage codeContent = (res, m', evs)
   \<Longrightarrow> CreateOrUpdateFileContents a b c d e f \<notin> set evs"
  by (auto simp: recordCompletion_def Let_def split: sum.splits if_splits)

lemma commitTask_commit_failure:
  assumes "commitTask env state m nameOfRepo remaining currentTask codeContent = (res, m', evs)"
    and "CreateOrUpdateFileContents owner r p msg c sha \<in> set evs"
    and "createOrUpdateFileContents env owner r p msg c sha = Inl ce"
  shows "res = Inl (Error (''GitHub commit failed: '' @ message ce)) \<and> m' = m"
proof (cases "targetPath currentTask")
  case (Inl e)
  with assms(1,2) show ?thesis by (simp add: commitTask_def)
next
  case (Inr fullPath)
  let ?msg = "''feat: implement '' @ toStringOpt (titleOf currentTask)"
  obtain r2 evs2 where cf: "commitFile env nameOfRepo fullPath ?msg codeContent = (r2, evs2)"
    by (cases "commitFile env nameOfRepo fullPath ?msg codeContent") auto
  show ?thesis
  proof (cases r2)
    case (Inl e)
    with Inr cf assms(1) have eq: "res = Inl e" "m' = m" "evs = evs2"
      by (simp_all add: commitTask_def Let_def)
    with assms(2) have "CreateOrUpdateFileContents owner r p msg c sha \<in> set evs2" by simp
    from commitFile_failure[OF cf this assms(3)] Inl eq show ?thesis by simp
  next
    case (Inr u)
    obtain r3 m3 evs3 where rc: "recordCompletion env state m remaining currentTask fullPath ?msg codeContent = (r3, m3, evs3)"
      by (cases "recordCompletion env state m remaining currentTask fullPath ?msg codeContent") auto
    with Inr \<open>targetPath currentTask = Inr fullPath\<close> cf assms(1) have eq: "evs = evs2 @ evs3"
      by (simp add: commitTask_def Let_def)
    from recordCompletion_no_commit[OF rc] eq assms(2)
    have "CreateOrUpdateFileContents owner r p msg c sha \<in> set evs2" by auto
    from commitFile_failure[OF cf this assms(3)] Inr show ?thesis by simp
  qed
qed

lemma developTask_commit_failure:
  assumes "developTask env state m spec nameOfRepo remaining currentTask = (res, m', evs)"
    and "CreateOrUpdateFileContents owner r p msg c sha \<in> set evs"
    and "createOrUpdateFileContents env owner r p msg c sha = Inl ce"
  shows "res = Inl (Error (''GitHub commit failed: '' @ message ce)) \<and> m' = m"
proof -
  obtain r1 evs1 where g: "generateCode env spec currentTask = (r1, evs1)"
    by (cases "generateCode env spec currentTask") auto
  note nc = generateCode_no_commit[OF g]
  show ?thesis
  proof (cases r1)
    case (Inl e)
    with g assms(1) have "evs = evs1" by (simp add: developTask_def)
    with nc assms(2) show ?thesis by simp
  next
    case (Inr code)
    obtain r2 m2 evs2 where ct: "commitTask env state m nameOfRepo remaining currentTask code = (r2, m2, evs2)"
      by (cases "commitTask env state m nameOfRepo remaining currentTask code") auto
    with Inr g assms(1) have eq: "res = r2" "m' = m2" "evs = evs1 @ evs2"
      by (simp_all add: developTask_def)
    with nc assms(2) have "CreateOrUpdateFileContents owner r p msg c sha \<in> set evs2" by auto
    from commitTask_commit_failure[OF ct this assms(3)] eq show ?thesis by simp
  qed
qed

lemma developBody_commit_failure:
  assumes "developBody env state m = (res, m', evs)"
    and "CreateOrUpdateFileContents owner r p msg c sha \<in> set evs"
    and "createOrUpdateFileContents env owner r p msg c sha = Inl ce"
  shows "res = Inl (Error (''GitHub commit failed: '' @ message ce)) \<and> m' = m"
  using assms unfolding developBody_def
  by (auto simp: Let_def split: sum.splits option.splits dest: developTask_commit_failure)


text \<open>
  Claim C2. When a cycle calls \<open>createOrUpdateFileContents\<close> and the call fails, the cycle
  throws \<open>GitHub commit failed: ...\<close> to its caller, the two messages of the failure entry are
  appended to the log, and the local project state is the one before the cycle: no task
  is removed, so \<open>getRemainingTasks\<close> and the choice of the task give the same head task on
  the next cycle.
\<close>

theorem commit_failure_keeps_queue:
  "developNextTask env state m = (res, m', evs)
   \<and> CreateOrUpdateFileContents owner r p msg c sha \<in> set evs
   \<and> createOrUpdateFileContents env owner r p msg c sha = Inl ce
   \<longrightarrow> res = Inl (Error (''GitHub commit failed: '' @ message ce))
       \<and> projectState m' = projectState m
       \<and> past_steps m' = past_steps m @ failureEntries (now env) (Error (''GitHub commit failed: '' @ message ce))
       \<and> getRemainingTasks (JSON_parse env) m' = getRemainingTasks (JSON_parse env) m
       \<and> chooseTask (getRemainingTasks (JSON_parse env) m') (st_plan state)
           = chooseTask (getRemainingTasks (JSON_parse env) m) (st_plan state)"
proof (intro impI)
  assume a: "developNextTask env state m = (res, m', evs)
   \<and> CreateOrUpdateFileContents owner r p msg c sha \<in> set evs
   \<and> createOrUpdateFileContents env owner r p msg c sha = Inl ce"
  obtain rb mb eb where b: "developBody env state m = (rb, mb, eb)"
    by (cases "developBody env state m") auto
  from a b have eb: "eb = evs"
    by (cases rb) (simp_all add: developNextTask_def)
  with a have "CreateOrUpdateFileContents owner r p msg c sha \<in> set eb" by simp
  from developBody_commit_failure[OF b this] a
  have rb: "rb = Inl (Error (''GitHub commit failed: '' @ message ce))" and mb: "mb = m"
    by simp_all
  from a b rb mb have res: "res = Inl (Error (''GitHub commit failed: '' @ message ce))"
    and m': "m' = saveTaskProgress (now env) (Some (JStr ''ERROR'')) ''failed''
             (JObj [(''error'', JStr (message (Error (''GitHub commit failed: '' @ message ce)))),
                    (''timestamp'', JStr (now env))]) m"
    by (simp_all add: developNextTask_def)
  have ps: "projectState m' = projectState m" by (simp add: m')
  have log: "past_steps m' = past_steps m @ failureEntries (now env) (Error (''GitHub commit failed: '' @ message ce))"
    by (simp add: m' saveTaskProgress_def failureEntries_def)
  have g: "getRemainingTasks (JSON_parse env) m' = getRemainingTasks (JSON_parse env) m"
    by (simp add: getRemainingTasks_local ps)
  from res ps log g
  show "res = Inl (Error (''GitHub commit failed: '' @ message ce))
       \<and> projectState m' = projectState m
       \<and> past_steps m' = past_steps m @ failureEntries (now env) (Error (''GitHub commit failed: '' @ message ce))
       \<and> getRemainingTasks (JSON_parse env) m' = getRemainingTasks (JSON_parse env) m
       \<and> chooseTask (getRemainingTasks (JSON_parse env) m') (st_plan state)
           = chooseTask (getRemainingTasks (JSON_parse env) m) (st_plan state)"
    by simp
qed

lemma conflict_events:
  "snd (snd (developNextTask (demoEnv (Inl (RequestError 409 ''Conflict''))) demoState demoMemory))
     = [Invoke (CodePrompt demoSpec (demoTasks ! 0)),
        GetAuthenticated,
        GetContent ''octo'' (JStr ''demo'') ''src/index.js'',
        CreateOrUpdateFileContents ''octo'' (JStr ''demo'') ''src/index.js'' ''feat: implement Set up''
          ''module.exports = 42;'' None,
        SendErrorNotification ''Conflict'']"
  by code_simp


text \<open>
  Claim C2, witness: the scenario of a conflict. The commit of the demo project answers
  with status 409; the cycle fails, the queue still holds the three tasks and the head task
  is chosen again.
\<close>

theorem commit_failure_keeps_queue_witness:
  "CreateOrUpdateFileContents ''octo'' (JStr ''demo'') ''src/index.js'' ''feat: implement Set up''
       ''module.exports = 42;'' None
     \<in> set (snd (snd (developNextTask (demoEnv (Inl (RequestError 409 ''Conflict''))) demoState demoMemory)))
   \<and> createOrUpdateFileContents (demoEnv (Inl (RequestError 409 ''Conflict''))) ''octo'' (JStr ''demo'')
         ''src/index.js'' ''feat: implement Set up'' ''module.exports = 42;'' None
       = Inl (RequestError 409 ''Conflict'')
   \<and> fst (developNextTask (demoEnv (Inl (RequestError 409 ''Conflict''))) demoState demoMemory)
       = Inl (Error ''GitHub commit failed: Conflict'')
   \<and> remainingTasks (projectState
         (fst (snd (developNextTask (demoEnv (Inl (RequestError 409 ''Conflict''))) demoState demoMemory))))
       = demoTasks
   \<and> chooseTask (getRemainingTasks (JSON_parse (demoEnv (Inl (RequestError 409 ''Conflict''))))
         (fst (snd (developNextTask (demoEnv (Inl (RequestError 409 ''Conflict''))) demoState demoMemory))))
         (st_plan demoState)
       = Some (demoTasks ! 0)"
proof -
  let ?env = "demoEnv (Inl (RequestError 409 ''Conflict''))"
  let ?run = "developNextTask ?env demoState demoMemory"
  let ?ev = "CreateOrUpdateFileContents ''octo'' (JStr ''demo'') ''src/index.js'' ''feat: implement Set up''
       ''module.exports = 42;'' None"
  have run: "?run = (fst ?run, fst (snd ?run), snd (snd ?run))" by simp
  have ev: "?ev \<in> set (snd (snd ?run))" by (simp add: conflict_events)
  have out: "createOrUpdateFileContents ?env ''octo'' (JStr ''demo'')
         ''src/index.js'' ''feat: implement Set up'' ''module.exports = 42;'' None
       = Inl (RequestError 409 ''Conflict'')"
    by (simp add: demoEnv_def)
  have q: "remainingTasks (projectState demoMemory) = demoTasks"
    by (simp add: demoMemory_def constructor_def)
  have h: "chooseTask demoTasks (st_plan demoState) = Some (demoTasks ! 0)"
    by (simp add: chooseTask_def demoTasks_def)
  from commit_failure_keeps_queue[where env = ?env and state = demoState and m = demoMemory
      and res = "fst ?run" and m' = "fst (snd ?run)" and evs = "snd (snd ?run)"
      and owner = "''octo''" and r = "JStr ''demo''" and p = "''src/index.js''"
      and msg = "''feat: implement Set up''" and c = "''module.exports = 42;''" and sha = None
      and ce = "RequestError 409 ''Conflict''"] run ev out
  have r: "fst ?run = Inl (Error (''GitHub commit failed: '' @ message (RequestError 409 ''Conflict'')))"
    and p: "projectState (fst (snd ?run)) = projectState demoMemory"
    and g: "getRemainingTasks (JSON_parse ?env) (fst (snd ?run)) = getRemainingTasks (JSON_parse ?env) demoMemory"
    by blast+
  from r have r': "fst ?run = Inl (Error ''GitHub commit failed: Conflict'')" by simp
  from p q have q': "remainingTasks (projectState (fst (snd ?run))) = demoTasks" by simp
  from g q h have h': "chooseTask (getRemainingTasks (JSON_parse ?env) (fst (snd ?run))) (st_plan demoState)
       = Some (demoTasks ! 0)"
    by (simp add: getRemainingTasks_local)
  from ev out r' q' h' show ?thesis by blast
qed

lemma success_result:
  "fst (developNextTask (demoEnv (Inr ())) demoState demoMemory)
     = Inr (Committed demoState ''feat: implement Set up'' ''src/index.js'' ''module.exports = 42;''
              (Some (JStr ''Set up'')) 1)"
  by code_simp

text \<open>
  Claim C9, witness: the queue of the demo project has two tasks titled \<open>Set up\<close>; one
  successful cycle leaves the single task \<open>Add tests\<close>.
\<close>

theorem successful_cycle_removes_title_witness:
  "fst (developNextTask (demoEnv (Inr ())) demoState demoMemory)
     = Inr (Committed demoState ''feat: implement Set up'' ''src/index.js'' ''module.exports = 42;''
              (Some (JStr ''Set up'')) 1)
   \<and> remainingTasks (projectState demoMemory) = demoTasks ! 0 # [demoTasks ! 1, demoTasks ! 2]
   \<and> list_all primitiveTitle (demoTasks ! 0 # [demoTasks ! 1, demoTasks ! 2])
   \<and> titleOf (demoTasks ! 2) = titleOf (demoTasks ! 0)
   \<and> remainingTasks (projectState (fst (snd (developNextTask (demoEnv (Inr ())) demoState demoMemory))))
       = [demoTasks ! 1]"
proof -
  let ?run = "developNextTask (demoEnv (Inr ())) demoState demoMemory"
  have run: "?run = (Inr (Committed demoState ''feat: implement Set up'' ''src/index.js'' ''module.exports = 42;''
              (Some (JStr ''Set up'')) 1), fst (snd ?run), snd (snd ?run))"
    using success_result by (metis prod.collapse)
  have q: "remainingTasks (projectState demoMemory) = demoTasks ! 0 # [demoTasks ! 1, demoTasks ! 2]"
    by (simp add: demoMemory_def constructor_def demoTasks_def)
  have pt: "list_all primitiveTitle (demoTasks ! 0 # [demoTasks ! 1, demoTasks ! 2])"
    by (simp add: demoTasks_def primitiveTitle_def titleOf_def)
  then have pt': "\<forall>task\<in>set (demoTasks ! 0 # [demoTasks ! 1, demoTasks ! 2]). primitiveTitle task"
    unfolding list_all_iff .
  have same: "titleOf (demoTasks ! 2) = titleOf (demoTasks ! 0)"
    by (simp add: demoTasks_def titleOf_def)
  from successful_cycle_removes_title[where env = "demoEnv (Inr ())" and state = demoState and m = demoMemory
      and st = demoState and msg = "''feat: implement Set up''" and path = "''src/index.js''"
      and content = "''module.exports = 42;''" and title = "Some (JStr ''Set up'')" and n = 1
      and m' = "fst (snd ?run)" and evs = "snd (snd ?run)" and t = "demoTasks ! 0"
      and rest = "[demoTasks ! 1, demoTasks ! 2]"] run q pt'
  have "remainingTasks (projectState (fst (snd ?run)))
          = filter (\<lambda>task. titleOf task \<noteq> titleOf (demoTasks ! 0)) (demoTasks ! 0 # [demoTasks ! 1, demoTasks ! 2])"
    by blast
  also have "\<dots> = [demoTasks ! 1]"
    by (simp add: demoTasks_def titleOf_def)
  finally have f: "remainingTasks (projectState (fst (snd ?run))) = [demoTasks ! 1]" .
  from success_result q pt same f show ?thesis by blast
qed

lemma notifications_append:
  "taskCompletionNotifications (a @ b) = taskCompletionNotifications a @ taskCompletionNotifications b"
  by (simp add: taskCompletionNotifications_def)

lemma generateCode_notifications:
  "generateCode env spec task = (res, evs) \<Longrightarrow> taskCompletionNotifications evs = []"
  by (auto simp: taskCompletionNotifications_def filter_empty_conv dest: generateCode_events)

lemma commitFile_notifications:
  "commitFile env r p msg c = (res, evs) \<Longrightarrow> taskCompletionNotifications evs = []"
  by (auto simp: commitFile_def taskCompletionNotifications_def split: sum.splits if_splits)

lemma isCompleted_updateRemainingTasks_empty:
  "isCompleted (projectState (updateRemainingTasks t [] m))"
  by (simp add: updateRemainingTasks_def markProjectCompleted_def Let_def)

lemma recordCompletion_empty:
  assumes "removeCompleted remaining currentTask = Inr []"
  shows "recordCompletion env state m remaining currentTask path msg content
           = (Inr (Committed state msg path content (titleOf currentTask) 0),
              markProjectCompleted (now env) (updateRemainingTasks (now env) []
                (saveTaskProgress (now env) (titleOf currentTask) ''completed''
                   (JObj [(''filePath'', JStr path), (''commitMessage'', JStr msg),
                          (''timestamp'', JStr (now env))]) m)),
              [SendTaskCompletionNotification (titleOf currentTask) 0])"
  using assms by (simp add: recordCompletion_def Let_def)

lemma recordCompletion_done:
  assumes "recordCompletion env state m remaining currentTask fullPath commitMessage codeContent
             = (Inr (Committed st msg path content title n), m', evs)"
  shows "taskCompletionNotifications evs = [SendTaskCompletionNotification title n]
         \<and> (n = 0 \<longrightarrow> isCompleted (projectState m'))"
  using assms unfolding recordCompletion_def
  by (auto simp: Let_def taskCompletionNotifications_def markProjectCompleted_def split: sum.splits if_splits)

lemma commitTask_done:
  assumes "commitTask env state m nameOfRepo remaining currentTask codeContent
             = (Inr (Committed st msg path content title n), m', evs)"
  shows "taskCompletionNotifications evs = [SendTaskCompletionNotification title n]
         \<and> (n = 0 \<longrightarrow> isCompleted (projectState m'))"
proof -
  from assms obtain fullPath cm evs2 evs3 where
    c: "commitFile env nameOfRepo fullPath cm codeContent = (Inr (), evs2)"
    and r: "recordCompletion env state m remaining currentTask fullPath cm codeContent
              = (Inr (Committed st msg path content title n), m', evs3)"
    and e: "evs = evs2 @ evs3"
    unfolding commitTask_def by (auto simp: Let_def split: sum.splits prod.splits)
  from c have "taskCompletionNotifications evs2 = []" by (rule commitFile_notifications)
  moreover from r have "taskCompletionNotifications evs3 = [SendTaskCompletionNotification title n]
         \<and> (n = 0 \<longrightarrow> isCompleted (projectState m'))" by (rule recordCompletion_done)
  ultimately show ?thesis using e by (simp add: notifications_append)
qed

lemma developTask_done:
  assumes "developTask env state m spec nameOfRepo remaining currentTask
             = (Inr (Committed st msg path content title n), m', evs)"
  shows "taskCompletionNotifications evs = [SendTaskCompletionNotification title n]
         \<and> (n = 0 \<longrightarrow> isCompleted (projectState m'))"
proof -
  from assms obtain codeContent evs1 evs2 where
    g: "generateCode env spec currentTask = (Inr codeContent, evs1)"
    and c: "commitTask env state m nameOfRepo remaining currentTask codeContent
              = (Inr (Committed st msg path content title n), m', evs2)"
    and e: "evs = evs1 @ evs2"
    unfolding developTask_def by (auto simp: Let_def split: sum.splits prod.splits)
  from g have "taskCompletionNotifications evs1 = []" by (rule generateCode_notifications)
  moreover from c have "taskCompletionNotifications evs2 = [SendTaskCompletionNotification title n]
         \<and> (n = 0 \<longrightarrow> isCompleted (projectState m'))" by (rule commitTask_done)
  ultimately show ?thesis using e by (simp add: notifications_append)
qed

lemma developBody_done:
  assumes "developBody env state m = (Inr (Committed st msg path content title n), m', evs)"
  shows "taskCompletionNotifications evs = [SendTaskCompletionNotification title n]
         \<and> (n = 0 \<longrightarrow> isCompleted (projectState m'))"
  using assms unfolding developBody_def
  by (auto simp: Let_def split: sum.splits option.splits dest: developTask_done)


lemma update_messages:
  \<open>formatted (JObj [(''remainingTasks'', JStr ''update'')]) = ''{"remainingTasks":"update"}''\<close>
  \<open>formatted (JObj [(''remainingTasks'', JArr [])]) = ''{"remainingTasks":[]}''\<close>
  by code_simp+

lemma updateRemainingTasks_completed:
  assumes "isCompleted (projectState m)" "remainingTasks (projectState m) = []"
  shows \<open>updateRemainingTasks t [] m
           = m\<lparr>past_steps := past_steps m @ [''{"remainingTasks":"update"}'', ''{"remainingTasks":[]}''],
               projectState := (projectState m)\<lparr>lastUpdated := Some t\<rparr>\<rparr>\<close>
  using assms
  by (simp add: updateRemainingTasks_def markProjectCompleted_def saveContext_def Let_def update_messages)

text \<open>
  Claim C6, as the code has it. On a state that is completed with an empty queue,
  \<open>markProjectCompleted\<close> rewrites \<open>lastUpdated\<close> and changes nothing else, and
  \<open>updateRemainingTasks\<close> with the empty queue rewrites \<open>lastUpdated\<close> and appends its two
  messages to the log, and changes nothing else. On every state, \<open>markProjectCompleted\<close>
  twice is \<open>markProjectCompleted\<close> once with the later time; it leaves the state completed,
  the queue and the log as they are; \<open>updateRemainingTasks\<close> with the empty queue leaves the
  state completed and the queue empty. Both return the state: they throw nothing and send
  no notification. In a development cycle the transition is applied twice in a row, by
  \<open>updateRemainingTasks\<close> and then by \<open>markProjectCompleted\<close>: when the removal of the
  completed task leaves no task, the completion step returns its result, leaves the state
  completed with an empty queue, and sends one task-completion notification; and the calls
  of a whole cycle that returns with no task left hold exactly one task-completion
  notification.
\<close>

theorem completion_idempotent:
  \<open>(isCompleted (projectState m) \<and> remainingTasks (projectState m) = []
     \<longrightarrow> markProjectCompleted t m = m\<lparr>projectState := (projectState m)\<lparr>lastUpdated := Some t\<rparr>\<rparr>
         \<and> updateRemainingTasks t [] m
             = m\<lparr>past_steps := past_steps m @ [''{"remainingTasks":"update"}'', ''{"remainingTasks":[]}''],
                 projectState := (projectState m)\<lparr>lastUpdated := Some t\<rparr>\<rparr>)
   \<and> markProjectCompleted t' (markProjectCompleted t m) = markProjectCompleted t' m
   \<and> isCompleted (projectState (markProjectCompleted t m))
   \<and> remainingTasks (projectState (markProjectCompleted t m)) = remainingTasks (projectState m)
   \<and> past_steps (markProjectCompleted t m) = past_steps m
   \<and> isCompleted (projectState (updateRemainingTasks t [] m))
   \<and> remainingTasks (projectState (updateRemainingTasks t [] m)) = []
   \<and> (removeCompleted remaining currentTask = Inr []
       \<longrightarrow> (\<exists>m2. recordCompletion env state m remaining currentTask path msg content
                   = (Inr (Committed state msg path content (titleOf currentTask) 0), m2,
                      [SendTaskCompletionNotification (titleOf currentTask) 0])
                \<and> isCompleted (projectState m2) \<and> remainingTasks (projectState m2) = []))
   \<and> (developNextTask env state m = (Inr (Committed st msg path content title 0), m', evs)
       \<longrightarrow> isCompleted (projectState m') \<and> remainingTasks (projectState m') = []
           \<and> taskCompletionNotifications evs = [SendTaskCompletionNotification title 0])\<close>
proof (intro conjI impI)
  assume a: "isCompleted (projectState m) \<and> remainingTasks (projectState m) = []"
  then show "markProjectCompleted t m = m\<lparr>projectState := (projectState m)\<lparr>lastUpdated := Some t\<rparr>\<rparr>"
    by (simp add: markProjectCompleted_def)
  from a show \<open>updateRemainingTasks t [] m
             = m\<lparr>past_steps := past_steps m @ [''{"remainingTasks":"update"}'', ''{"remainingTasks":[]}''],
                 projectState := (projectState m)\<lparr>lastUpdated := Some t\<rparr>\<rparr>\<close>
    by (simp add: updateRemainingTasks_completed)
next
  show "markProjectCompleted t' (markProjectCompleted t m) = markProjectCompleted t' m"
    by (simp add: markProjectCompleted_def)
  show "isCompleted (projectState (markProjectCompleted t m))"
    by (simp add: markProjectCompleted_def)
  show "remainingTasks (projectState (markProjectCompleted t m)) = remainingTasks (projectState m)"
    by simp
  show "past_steps (markProjectCompleted t m) = past_steps m"
    by (simp add: markProjectCompleted_def)
  show "isCompleted (projectState (updateRemainingTasks t [] m))"
    by (rule isCompleted_updateRemainingTasks_empty)
  show "remainingTasks (projectState (updateRemainingTasks t [] m)) = []"
    by simp
next
  assume r: "removeCompleted remaining currentTask = Inr []"
  let ?m2 = "markProjectCompleted (now env) (updateRemainingTasks (now env) []
                (saveTaskProgress (now env) (titleOf currentTask) ''completed''
                   (JObj [(''filePath'', JStr path), (''commitMessage'', JStr msg),
                          (''timestamp'', JStr (now env))]) m))"
  have 1: "recordCompletion env state m remaining currentTask path msg content
                   = (Inr (Committed state msg path content (titleOf currentTask) 0), ?m2,
                      [SendTaskCompletionNotification (titleOf currentTask) 0])"
    using r by (rule recordCompletion_empty)
  have 2: "isCompleted (projectState ?m2)" by (simp add: markProjectCompleted_def)
  have 3: "remainingTasks (projectState ?m2) = []" by simp
  from 1 2 3
  show "\<exists>m2. recordCompletion env state m remaining currentTask path msg content
                   = (Inr (Committed state msg path content (titleOf currentTask) 0), m2,
                      [SendTaskCompletionNotification (titleOf currentTask) 0])
                \<and> isCompleted (projectState m2) \<and> remainingTasks (projectState m2) = []"
    by blast
next
  assume "developNextTask env state m = (Inr (Committed st msg path content title 0), m', evs)"
  then have b: "developBody env state m = (Inr (Committed st msg path content title 0), m', evs)"
    by (simp add: developNextTask_Inr)
  from developBody_done[OF b]
  show "isCompleted (projectState m')" and "taskCompletionNotifications evs = [SendTaskCompletionNotification title 0]"
    by simp_all
  from developBody_Committed[OF b] show "remainingTasks (projectState m') = []"
    by auto
qed

lemma lastTask_result:
  "fst (developNextTask (demoEnv (Inr ())) demoState
         (demoMemory\<lparr>projectState := (projectState demoMemory)\<lparr>remainingTasks := [demoTasks ! 0, demoTasks ! 2]\<rparr>\<rparr>))
     = Inr (Committed demoState ''feat: implement Set up'' ''src/index.js'' ''module.exports = 42;''
              (Some (JStr ''Set up'')) 0)"
  by code_simp

lemma lastTask_removed: "removeCompleted [demoTasks ! 0, demoTasks ! 2] (demoTasks ! 0) = Inr []"
  by code_simp

text \<open>
  Claim C6, witness: the state after emptying the queue of a new service is completed with
  an empty queue; the demo project with its two tasks of the title \<open>Set up\<close> left is
  completed by one cycle.
\<close>

theorem completion_idempotent_witness:
  \<open>isCompleted (projectState (updateRemainingTasks ''2024-01-01'' [] constructor))
   \<and> remainingTasks (projectState (updateRemainingTasks ''2024-01-01'' [] constructor)) = []
   \<and> markProjectCompleted ''2024-01-02'' (updateRemainingTasks ''2024-01-01'' [] constructor)
       = (updateRemainingTasks ''2024-01-01'' [] constructor)
           \<lparr>projectState := (projectState (updateRemainingTasks ''2024-01-01'' [] constructor))
                               \<lparr>lastUpdated := Some ''2024-01-02''\<rparr>\<rparr>
   \<and> past_steps (updateRemainingTasks ''2024-01-02'' [] (updateRemainingTasks ''2024-01-01'' [] constructor))
       = [''{"remainingTasks":"update"}'', ''{"remainingTasks":[]}'',
          ''{"remainingTasks":"update"}'', ''{"remainingTasks":[]}'']
   \<and> removeCompleted [demoTasks ! 0, demoTasks ! 2] (demoTasks ! 0) = Inr []
   \<and> (\<exists>m2. recordCompletion (demoEnv (Inr ())) demoState demoMemory [demoTasks ! 0, demoTasks ! 2] (demoTasks ! 0)
               ''src/index.js'' ''feat: implement Set up'' ''module.exports = 42;''
             = (Inr (Committed demoState ''feat: implement Set up'' ''src/index.js'' ''module.exports = 42;''
                       (Some (JStr ''Set up'')) 0), m2,
                [SendTaskCompletionNotification (Some (JStr ''Set up'')) 0])
           \<and> isCompleted (projectState m2) \<and> remainingTasks (projectState m2) = [])
   \<and> fst (developNextTask (demoEnv (Inr ())) demoState
         (demoMemory\<lparr>projectState := (projectState demoMemory)\<lparr>remainingTasks := [demoTasks ! 0, demoTasks ! 2]\<rparr>\<rparr>))
       = Inr (Committed demoState ''feat: implement Set up'' ''src/index.js'' ''module.exports = 42;''
                (Some (JStr ''Set up'')) 0)
   \<and> isCompleted (projectState (fst (snd (developNextTask (demoEnv (Inr ())) demoState
         (demoMemory\<lparr>projectState := (projectState demoMemory)\<lparr>remainingTasks := [demoTasks ! 0, demoTasks ! 2]\<rparr>\<rparr>)))))
   \<and> remainingTasks (projectState (fst (snd (developNextTask (demoEnv (Inr ())) demoState
         (demoMemory\<lparr>projectState := (projectState demoMemory)\<lparr>remainingTasks := [demoTasks ! 0, demoTasks ! 2]\<rparr>\<rparr>))))) = []
   \<and> taskCompletionNotifications (snd (snd (developNextTask (demoEnv (Inr ())) demoState
         (demoMemory\<lparr>projectState := (projectState demoMemory)\<lparr>remainingTasks := [demoTasks ! 0, demoTasks ! 2]\<rparr>\<rparr>))))
       = [SendTaskCompletionNotification (Some (JStr ''Set up'')) 0]\<close>
proof -
  let ?m0 = "updateRemainingTasks ''2024-01-01'' [] constructor"
  let ?ml = "demoMemory\<lparr>projectState := (projectState demoMemory)\<lparr>remainingTasks := [demoTasks ! 0, demoTasks ! 2]\<rparr>\<rparr>"
  let ?run = "developNextTask (demoEnv (Inr ())) demoState ?ml"
  have c: "isCompleted (projectState ?m0)"
    by (simp add: updateRemainingTasks_def markProjectCompleted_def Let_def)
  have q: "remainingTasks (projectState ?m0) = []" by simp
  have p0: \<open>past_steps ?m0 = [''{"remainingTasks":"update"}'', ''{"remainingTasks":[]}'']\<close>
    by code_simp
  from completion_idempotent[where m = ?m0 and t = "''2024-01-02''"] c q
  have 1: \<open>markProjectCompleted ''2024-01-02'' ?m0 = ?m0\<lparr>projectState := (projectState ?m0)\<lparr>lastUpdated := Some ''2024-01-02''\<rparr>\<rparr>
       \<and> updateRemainingTasks ''2024-01-02'' [] ?m0
             = ?m0\<lparr>past_steps := past_steps ?m0 @ [''{"remainingTasks":"update"}'', ''{"remainingTasks":[]}''],
                 projectState := (projectState ?m0)\<lparr>lastUpdated := Some ''2024-01-02''\<rparr>\<rparr>\<close>
    by blast
  then have \<open>past_steps (updateRemainingTasks ''2024-01-02'' [] ?m0)
      = past_steps ?m0 @ [''{"remainingTasks":"update"}'', ''{"remainingTasks":[]}'']\<close>
    by simp
  with p0 have 2: \<open>past_steps (updateRemainingTasks ''2024-01-02'' [] ?m0)
       = [''{"remainingTasks":"update"}'', ''{"remainingTasks":[]}'',
          ''{"remainingTasks":"update"}'', ''{"remainingTasks":[]}'']\<close>
    by simp
  have t0: "titleOf (demoTasks ! 0) = Some (JStr ''Set up'')" by code_simp
  from completion_idempotent[where remaining = "[demoTasks ! 0, demoTasks ! 2]" and currentTask = "demoTasks ! 0"
      and env = "demoEnv (Inr ())" and state = demoState and m = demoMemory and path = "''src/index.js''"
      and msg = "''feat: implement Set up''" and content = "''module.exports = 42;''"] lastTask_removed
  have "\<exists>m2. recordCompletion (demoEnv (Inr ())) demoState demoMemory [demoTasks ! 0, demoTasks ! 2] (demoTasks ! 0)
               ''src/index.js'' ''feat: implement Set up'' ''module.exports = 42;''
             = (Inr (Committed demoState ''feat: implement Set up'' ''src/index.js'' ''module.exports = 42;''
                       (titleOf (demoTasks ! 0)) 0), m2,
                [SendTaskCompletionNotification (titleOf (demoTasks ! 0)) 0])
           \<and> isCompleted (projectState m2) \<and> remainingTasks (projectState m2) = []"
    by blast
  then have 3: "\<exists>m2. recordCompletion (demoEnv (Inr ())) demoState demoMemory [demoTasks ! 0, demoTasks ! 2] (demoTasks ! 0)
               ''src/index.js'' ''feat: implement Set up'' ''module.exports = 42;''
             = (Inr (Committed demoState ''feat: implement Set up'' ''src/index.js'' ''module.exports = 42;''
                       (Some (JStr ''Set up'')) 0), m2,
                [SendTaskCompletionNotification (Some (JStr ''Set up'')) 0])
           \<and> isCompleted (projectState m2) \<and> remainingTasks (projectState m2) = []"
    unfolding t0 .
  have run: "?run = (Inr (Committed demoState ''feat: implement Set up'' ''src/index.js'' ''module.exports = 42;''
              (Some (JStr ''Set up'')) 0), fst (snd ?run), snd (snd ?run))"
    using lastTask_result by (metis prod.collapse)
  from completion_idempotent[where env = "demoEnv (Inr ())" and state = demoState and m = ?ml
      and st = demoState and msg = "''feat: implement Set up''" and path = "''src/index.js''"
      and content = "''module.exports = 42;''" and title = "Some (JStr ''Set up'')"
      and m' = "fst (snd ?run)" and evs = "snd (snd ?run)"] run
  have 4: "isCompleted (projectState (fst (snd ?run))) \<and> remainingTasks (projectState (fst (snd ?run))) = []
           \<and> taskCompletionNotifications (snd (snd ?run)) = [SendTaskCompletionNotification (Some (JStr ''Set up'')) 0]"
    by blast
  from c q 1 2 3 4 lastTask_removed lastTask_result show ?thesis by blast
qed

text \<open>
  Claim C6 as stated has the repeated transition produce no other effect than at most one
  notification. On the completed state with an empty queue that \<open>updateRemainingTasks\<close>
  leaves, a second \<open>updateRemainingTasks\<close> with the empty queue appends two more messages to
  the log, and \<open>markProjectCompleted\<close> replaces \<open>lastUpdated\<close>: neither is a no-op.
\<close>

theorem completion_counterexample:
  \<open>isCompleted (projectState (updateRemainingTasks ''2024-01-01'' [] constructor))
   \<and> remainingTasks (projectState (updateRemainingTasks ''2024-01-01'' [] constructor)) = []
   \<and> past_steps (updateRemainingTasks ''2024-01-01'' [] constructor)
       = [''{"remainingTasks":"update"}'', ''{"remainingTasks":[]}'']
   \<and> past_steps (updateRemainingTasks ''2024-01-02'' [] (updateRemainingTasks ''2024-01-01'' [] constructor))
       = [''{"remainingTasks":"update"}'', ''{"remainingTasks":[]}'',
          ''{"remainingTasks":"update"}'', ''{"remainingTasks":[]}'']
   \<and> lastUpdated (projectState (updateRemainingTasks ''2024-01-01'' [] constructor)) = Some ''2024-01-01''
   \<and> lastUpdated (projectState (markProjectCompleted ''2024-01-02'' (updateRemainingTasks ''2024-01-01'' [] constructor)))
       = Some ''2024-01-02''
   \<and> markProjectCompleted ''2024-01-02'' (updateRemainingTasks ''2024-01-01'' [] constructor)
       \<noteq> updateRemainingTasks ''2024-01-01'' [] constructor
   \<and> updateRemainingTasks ''2024-01-02'' [] (updateRemainingTasks ''2024-01-01'' [] constructor)
       \<noteq> updateRemainingTasks ''2024-01-01'' [] constructor\<close>
  by code_simp

section \<open>Properties of the setup\<close>

lemma generateIdea_returns: "\<exists>s. generateIdea env state = Inr s"
  by (cases "generateIdeaBody env state") (simp_all add: generateIdea_def)

lemma planProject_returns: "\<exists>s. planProject env state = Inr s"
  by (cases "planProjectBody env state") (simp_all add: planProject_def)

lemma manageRepository_returns: "\<exists>s. manageRepository env state = Inr s"
  by (cases "manageRepositoryBody env state") (simp_all add: manageRepository_def)

lemma mock_rejected: "checkRepository (repoJson mockRepo) = Inl (Error ''No valid repository found'')"
  by (simp add: checkRepository_def repoJson_def mockRepo_def)

text \<open>
  Claim C3, as the code has it. \<open>generateIdea\<close>, \<open>planProject\<close> and \<open>manageRepository\<close> each
  return a state for every input and every answer of the collaborators: an error thrown
  in the \<open>try\<close> block is caught and the fallback is returned, which is the fallback
  specification, the plan without tasks, and for \<open>manageRepository\<close> the placeholder
  repository \<open>mock-repo\<close>. The check of the repository in a development cycle rejects the
  placeholder.
\<close>

theorem setup_steps_absorb_errors:
  "(\<exists>s. generateIdea env state = Inr s)
   \<and> (generateIdeaBody env state = Inl e \<longrightarrow>
        generateIdea env state = Inr (state\<lparr>as_projectSpec := Some (fallbackSpec state)\<rparr>))
   \<and> (\<exists>s. planProject env state = Inr s)
   \<and> (planProjectBody env state = Inl e \<longrightarrow>
        planProject env state = Inr (state\<lparr>as_plan := Some fallbackPlan\<rparr>))
   \<and> (\<exists>s. manageRepository env state = Inr s)
   \<and> (manageRepositoryBody env state = Inl e \<longrightarrow>
        manageRepository env state = Inr (state\<lparr>as_repo := Some mockRepo\<rparr>))
   \<and> checkRepository (repoJson mockRepo) = Inl (Error ''No valid repository found'')"
proof -
  have 1: "generateIdeaBody env state = Inl e \<longrightarrow>
        generateIdea env state = Inr (state\<lparr>as_projectSpec := Some (fallbackSpec state)\<rparr>)"
    by (simp add: generateIdea_def)
  have 2: "planProjectBody env state = Inl e \<longrightarrow>
        planProject env state = Inr (state\<lparr>as_plan := Some fallbackPlan\<rparr>)"
    by (simp add: planProject_def)
  have 3: "manageRepositoryBody env state = Inl e \<longrightarrow>
        manageRepository env state = Inr (state\<lparr>as_repo := Some mockRepo\<rparr>)"
    by (simp add: manageRepository_def)
  from 1 2 3 generateIdea_returns[of env state] planProject_returns[of env state]
    manageRepository_returns[of env state] mock_rejected
  show ?thesis by blast
qed

lemma failingHost_body:
  "manageRepositoryBody failingHost plannedState = Inl (RequestError 500 ''Internal Server Error'')"
  by code_simp

lemma failingHost_idea:
  "generateIdeaBody failingHost (plannedState\<lparr>as_complexity := []\<rparr>)
     = Inl (Error ''Missing required fields: complexity'')"
  by code_simp

lemma failingHost_plan:
  "planProjectBody failingHost (plannedState\<lparr>as_projectSpec := None\<rparr>)
     = Inl (Error ''Missing required fields: projectSpec'')"
  by code_simp

text \<open>
  Claim C3, witness: a host whose repository lookup fails with status 500, a state without
  complexity and a state without specification.
\<close>

theorem setup_steps_absorb_errors_witness:
  "manageRepositoryBody failingHost plannedState = Inl (RequestError 500 ''Internal Server Error'')
   \<and> manageRepository failingHost plannedState = Inr (plannedState\<lparr>as_repo := Some mockRepo\<rparr>)
   \<and> generateIdeaBody failingHost (plannedState\<lparr>as_complexity := []\<rparr>)
       = Inl (Error ''Missing required fields: complexity'')
   \<and> generateIdea failingHost (plannedState\<lparr>as_complexity := []\<rparr>)
       = Inr (plannedState\<lparr>as_complexity := [],
                as_projectSpec := Some (fallbackSpec (plannedState\<lparr>as_complexity := []\<rparr>))\<rparr>)
   \<and> planProjectBody failingHost (plannedState\<lparr>as_projectSpec := None\<rparr>)
       = Inl (Error ''Missing required fields: projectSpec'')
   \<and> planProject failingHost (plannedState\<lparr>as_projectSpec := None\<rparr>)
       = Inr (plannedState\<lparr>as_projectSpec := None, as_plan := Some fallbackPlan\<rparr>)"
proof -
  from setup_steps_absorb_errors[where env = failingHost and state = plannedState
      and e = "RequestError 500 ''Internal Server Error''"] failingHost_body
  have a: "manageRepository failingHost plannedState = Inr (plannedState\<lparr>as_repo := Some mockRepo\<rparr>)"
    by blast
  from setup_steps_absorb_errors[where env = failingHost and state = "plannedState\<lparr>as_complexity := []\<rparr>"
      and e = "Error ''Missing required fields: complexity''"] failingHost_idea
  have b: "generateIdea failingHost (plannedState\<lparr>as_complexity := []\<rparr>)
       = Inr (plannedState\<lparr>as_complexity := [],
                as_projectSpec := Some (fallbackSpec (plannedState\<lparr>as_complexity := []\<rparr>))\<rparr>)"
    by blast
  from setup_steps_absorb_errors[where env = failingHost and state = "plannedState\<lparr>as_projectSpec := None\<rparr>"
      and e = "Error ''Missing required fields: projectSpec''"] failingHost_plan
  have c: "planProject failingHost (plannedState\<lparr>as_projectSpec := None\<rparr>)
       = Inr (plannedState\<lparr>as_projectSpec := None, as_plan := Some fallbackPlan\<rparr>)"
    by blast
  from a b c failingHost_body failingHost_idea failingHost_plan show ?thesis by blast
qed

text \<open>
  Claim C3 as stated has \<open>manageRepository\<close> throw every error other than the missing
  repository. With a token, a specification and a lookup that fails with status 500, the
  inner handler throws the error again, the outer \<open>catch\<close> takes it, and the step returns
  the state with the placeholder repository.
\<close>

theorem manageRepository_counterexample:
  "manageRepositoryBody failingHost plannedState = Inl (RequestError 500 ''Internal Server Error'')
   \<and> manageRepository failingHost plannedState = Inr (plannedState\<lparr>as_repo := Some mockRepo\<rparr>)
   \<and> manageRepository failingHost plannedState \<noteq> Inl (RequestError 500 ''Internal Server Error'')"
  by (simp add: manageRepository_def failingHost_body)

section \<open>Properties of the scheduler\<close>

lemma start_success:
  "\<not> isRunning s \<Longrightarrow> start env s = Inr s1 \<Longrightarrow>
     isRunning s1 \<and> jobs s1 ''dailyDevelopment'' = Some True \<and> s1 = s\<lparr>jobs := (jobs s)(''dailyDevelopment'' \<mapsto> True), isRunning := True\<rparr>"
  by (auto simp: start_def Let_def split: sum.splits option.splits if_splits)

text \<open>
  Claim C10. A manual trigger on a scheduler that is not running calls \<open>start\<close> first. When
  \<open>start\<close> returns, the flag \<open>isRunning\<close> is set and the job \<open>dailyDevelopment\<close> is registered and
  started, and this is the scheduler with which the cycle runs. When \<open>start\<close> throws, the
  trigger throws the same error and no cycle runs. So whenever the trigger calls
  \<open>runDailyCycle\<close>, the scheduler is running.
\<close>

theorem manual_trigger_starts_scheduler:
  "(\<not> isRunning s \<and> start env s = Inr s1 \<longrightarrow>
       isRunning s1 \<and> jobs s1 ''dailyDevelopment'' = Some True
       \<and> scheduler (triggerManualCycle env runDailyCycle s m) = s1
       \<and> (\<not> isProjectCompleted m \<longrightarrow> cycleStartedWith (triggerManualCycle env runDailyCycle s m) = Some s1))
   \<and> (\<not> isRunning s \<and> start env s = Inl e \<longrightarrow>
       outcome (triggerManualCycle env runDailyCycle s m) = Inl e
       \<and> cycleStartedWith (triggerManualCycle env runDailyCycle s m) = None
       \<and> memory (triggerManualCycle env runDailyCycle s m) = m)
   \<and> (cycleStartedWith (triggerManualCycle env runDailyCycle s m) = Some sc \<longrightarrow>
       isRunning sc \<and> sc = scheduler (triggerManualCycle env runDailyCycle s m))"
proof (intro conjI impI)
  assume a: "\<not> isRunning s \<and> start env s = Inr s1"
  then show "isRunning s1" and "jobs s1 ''dailyDevelopment'' = Some True"
    using start_success[of s env s1] by simp_all
  from a show "scheduler (triggerManualCycle env runDailyCycle s m) = s1"
    by (simp add: triggerManualCycle_def split: prod.splits sum.splits)
  assume "\<not> isProjectCompleted m"
  with a show "cycleStartedWith (triggerManualCycle env runDailyCycle s m) = Some s1"
    by (simp add: triggerManualCycle_def split: prod.splits sum.splits)
next
  assume a: "\<not> isRunning s \<and> start env s = Inl e"
  then show "outcome (triggerManualCycle env runDailyCycle s m) = Inl e"
    and "cycleStartedWith (triggerManualCycle env runDailyCycle s m) = None"
    and "memory (triggerManualCycle env runDailyCycle s m) = m"
    by (simp_all add: triggerManualCycle_def)
next
  assume a: "cycleStartedWith (triggerManualCycle env runDailyCycle s m) = Some sc"
  show "isRunning sc"
  proof (cases "isRunning s")
    case True
    with a show ?thesis
      by (auto simp: triggerManualCycle_def split: prod.splits sum.splits if_splits)
  next
    case False
    with a obtain s1 where "start env s = Inr s1" "sc = s1"
      by (auto simp: triggerManualCycle_def split: prod.splits sum.splits if_splits)
    with False show ?thesis using start_success[of s env s1] by simp
  qed
  from a show "sc = scheduler (triggerManualCycle env runDailyCycle s m)"
    by (auto simp: triggerManualCycle_def split: prod.splits sum.splits if_splits)
qed

text \<open>
  Claim C10, witness: a new scheduler, the default schedule, and the demo project, which is
  not completed.
\<close>

theorem manual_trigger_starts_scheduler_witness:
  "\<not> isRunning newCronScheduler
   \<and> start \<lparr> COMMIT_MODE = None, randomMinute = 17, randomHour = 10, cron_schedule = (\<lambda>expr. None) \<rparr> newCronScheduler
       = Inr (newCronScheduler\<lparr>jobs := (jobs newCronScheduler)(''dailyDevelopment'' \<mapsto> True), isRunning := True\<rparr>)
   \<and> \<not> isProjectCompleted demoMemory
   \<and> isRunning (scheduler (triggerManualCycle
          \<lparr> COMMIT_MODE = None, randomMinute = 17, randomHour = 10, cron_schedule = (\<lambda>expr. None) \<rparr>
          (\<lambda>m. (Inr (), m)) newCronScheduler demoMemory))
   \<and> cycleStartedWith (triggerManualCycle
          \<lparr> COMMIT_MODE = None, randomMinute = 17, randomHour = 10, cron_schedule = (\<lambda>expr. None) \<rparr>
          (\<lambda>m. (Inr (), m)) newCronScheduler demoMemory)
       = Some (newCronScheduler\<lparr>jobs := (jobs newCronScheduler)(''dailyDevelopment'' \<mapsto> True), isRunning := True\<rparr>)"
proof -
  let ?env = "\<lparr> COMMIT_MODE = None, randomMinute = 17, randomHour = 10, cron_schedule = (\<lambda>expr. None) \<rparr>"
  let ?s1 = "newCronScheduler\<lparr>jobs := (jobs newCronScheduler)(''dailyDevelopment'' \<mapsto> True), isRunning := True\<rparr>"
  have n: "\<not> isRunning newCronScheduler" by (simp add: newCronScheduler_def)
  have st: "start ?env newCronScheduler = Inr ?s1"
    by (simp add: start_def newCronScheduler_def getCurrentSchedule_def validateSchedule_def development_def Let_def)
  have c: "\<not> isProjectCompleted demoMemory"
    by (simp add: isProjectCompleted_def demoMemory_def constructor_def)
  from manual_trigger_starts_scheduler[where s = newCronScheduler and env = ?env and ?s1.0 = ?s1
      and runDailyCycle = "\<lambda>m. (Inr (), m)" and m = demoMemory] n st c
  show ?thesis by simp
qed

end
